theory Spec2Isabelle
  imports Main "HOL-Library.Sublist" "HOL-Library.AList"
begin

section \<open>Python values, text and errors\<close>

text \<open>
  The recipes are Python classes with a \<open>supports\<close> and an asynchronous \<open>scrape\<close> method.
  A Python \<open>str\<close> that comes from a request, a page or a tool is the list of its
  code points (the type \<open>str\<close>); \<open>lit\<close> writes an ASCII literal of the source as one. The names the program
  fixes and only compares (endpoints, the keys of the request parameters, the field names of
  an item, selectors, attribute and key names) are \<open>string\<close>s, and so are the bytes a
  subprocess prints. Every \<open>raise\<close> of the source and every exception (an instance of
  \<open>Exception\<close>) that a collaborator may throw is a value of \<open>error\<close>; a computation that may
  raise returns \<open>error + 'a\<close>. The cancellation of the running task is not modelled.
\<close>

type_synonym str = "int list"

definition lit :: "string \<Rightarrow> str" where
  "lit s = map of_char s"

datatype error =
    RuntimeError str
  | ValueError
  | UnicodeError
  | KeyError string
  | AttributeError
  | TypeError
  | External string

text \<open>
  The values a field of an item can hold (\<open>dict[str, Any]\<close>): what the JSON parser can
  return, a float being kept as the text the interpreter prints for it.
\<close>

datatype pyval =
    PNone
  | PBool bool
  | PInt int
  | PFloat str
  | PStr str
  | PList "pyval list"
  | PDict "(str \<times> pyval) list"

type_synonym item = "(string \<times> pyval) list"

text \<open>
  Modelled from the spec: the class \<open>ScrapeResult\<close> of \<open>web2api.scraper\<close> is not part of the
  sources; its fields are \<open>items\<close>, \<open>current_page\<close> and \<open>has_next\<close>, the page number
  "defaults to 1 when pagination is not applicable", and a result built without \<open>has_next\<close>
  reports no further page.
\<close>

record scrape_result =
  items :: "item list"
  current_page :: int
  has_next :: bool

definition ScrapeResult :: "item list \<Rightarrow> scrape_result" where
  "ScrapeResult its = \<lparr>items = its, current_page = 1, has_next = False\<rparr>"

text \<open>
  What the recipes take from the interpreter and its standard library, where the result
  depends on the Unicode tables or on a limit of the interpreter. None of it is code of the
  repository; it is a parameter of every definition below, and the theorems hold for every
  value of it.
  \<^item> \<open>py_isspace c\<close>: the character \<open>c\<close> is whitespace for \<open>str.strip()\<close>;
  \<^item> \<open>py_int s\<close>: the value of \<open>int(s)\<close>, \<open>None\<close> when it raises \<open>ValueError\<close>;
  \<^item> \<open>py_str n\<close>: the decimal text of the integer \<open>n\<close> in \<open>str(n)\<close> or an f-string, \<open>None\<close>
    when the conversion raises \<open>ValueError\<close>;
  \<^item> \<open>py_lower_char s i\<close>: what \<open>str.lower()\<close> puts for the non-ASCII character at position
    \<open>i\<close> of \<open>s\<close>;
  \<^item> \<open>py_re_space c\<close>: the character \<open>c\<close> is in the class \<open>\s\<close> of the module \<open>re\<close>;
  \<^item> \<open>py_quote safe s\<close>: \<open>urllib.parse.quote(s, safe)\<close>, \<open>None\<close> when the text cannot be
    encoded.
\<close>

record python =
  py_isspace :: "int \<Rightarrow> bool"
  py_int :: "str \<Rightarrow> int option"
  py_str :: "int \<Rightarrow> str option"
  py_lower_char :: "str \<Rightarrow> nat \<Rightarrow> str"
  py_re_space :: "int \<Rightarrow> bool"
  py_quote :: "string \<Rightarrow> str \<Rightarrow> str option"

text \<open>\<open>str.strip()\<close>: the whitespace characters are removed at both ends.\<close>

definition lstrip :: "python \<Rightarrow> str \<Rightarrow> str" where
  "lstrip py s = dropWhile (py_isspace py) s"

definition rstrip :: "python \<Rightarrow> str \<Rightarrow> str" where
  "rstrip py s = rev (dropWhile (py_isspace py) (rev s))"

definition strip :: "python \<Rightarrow> str \<Rightarrow> str" where
  "strip py s = rstrip py (lstrip py s)"

text \<open>
  \<open>str.lower()\<close>: an ASCII capital becomes the small letter, any other ASCII character stays,
  and a non-ASCII character becomes what the interpreter's tables give at its position.
\<close>

definition ascii_lower :: "int \<Rightarrow> int" where
  "ascii_lower c = (if 65 \<le> c \<and> c \<le> 90 then c + 32 else c)"

definition lower_at :: "python \<Rightarrow> str \<Rightarrow> nat \<Rightarrow> str" where
  "lower_at py s i = (if s ! i < 128 then [ascii_lower (s ! i)] else py_lower_char py s i)"

definition lower :: "python \<Rightarrow> str \<Rightarrow> str" where
  "lower py s = concat (map (lower_at py s) [0..<length s])"

text \<open>
  \<open>int(s)\<close>, \<open>str(n)\<close> and \<open>quote(s, safe)\<close> with the exception they raise. The encoding
  error of \<open>quote\<close> is kept apart from the \<open>ValueError\<close> of the two conversions, although its
  class derives from it.
\<close>

definition to_int :: "python \<Rightarrow> str \<Rightarrow> error + int" where
  "to_int py s = (case py_int py s of None \<Rightarrow> Inl ValueError | Some n \<Rightarrow> Inr n)"

definition to_str :: "python \<Rightarrow> int \<Rightarrow> error + str" where
  "to_str py n = (case py_str py n of None \<Rightarrow> Inl ValueError | Some s \<Rightarrow> Inr s)"

definition quote :: "python \<Rightarrow> string \<Rightarrow> str \<Rightarrow> error + str" where
  "quote py safe s = (case py_quote py safe s of None \<Rightarrow> Inl UnicodeError | Some q \<Rightarrow> Inr q)"

text \<open>\<open>x or ""\<close> for an optional text \<open>x\<close>.\<close>

definition or_empty :: "str option \<Rightarrow> str" where
  "or_empty x = (case x of None \<Rightarrow> [] | Some s \<Rightarrow> s)"

text \<open>An awaited call followed by the rest of the function: an exception ends it.\<close>

definition and_then :: "error + 'a \<Rightarrow> ('a \<Rightarrow> error + 'b) \<Rightarrow> error + 'b" where
  "and_then m f = (case m of Inl e \<Rightarrow> Inl e | Inr x \<Rightarrow> f x)"

text \<open>The calls made on the page handle, in the order they are issued.\<close>

datatype action =
    AddInitScript
  | Goto str
  | Sleep
  | Title
  | WaitForSelector string
  | QuerySelectorAll string
  | Click
  | Press string
  | TypeText str
  | ReadTarget

section \<open>The translation recipe\<close>

definition LANG_PAIRS :: "(string \<times> (string \<times> string)) list" where
  "LANG_PAIRS = [(''de-en'', (''de'', ''en'')), (''en-de'', (''en'', ''de''))]"

definition deepl_supports :: "string \<Rightarrow> bool" where
  "deepl_supports endpoint = (endpoint \<in> fst ` set LANG_PAIRS)"

text \<open>
  What one poll finds in the page: the target area, if present, with its \<open>value\<close> attribute
  and its text content, and the paragraph inside the target, if present, with its text content.
\<close>

record target_dom =
  target_area :: "(str option \<times> str option) option"
  target_p :: "str option option"

definition truthy_stripped :: "python \<Rightarrow> str option \<Rightarrow> bool" where
  "truthy_stripped py t = (case t of None \<Rightarrow> False | Some s \<Rightarrow> s \<noteq> [] \<and> strip py s \<noteq> [])"

definition read_target :: "python \<Rightarrow> target_dom \<Rightarrow> str" where
  "read_target py d =
     (let fallback =
        (case target_p d of
           None \<Rightarrow> []
         | Some t \<Rightarrow> if truthy_stripped py t then strip py (or_empty t) else [])
      in case target_area d of
           None \<Rightarrow> fallback
         | Some (v, t) \<Rightarrow>
             if truthy_stripped py v then strip py (or_empty v)
             else if truthy_stripped py t then strip py (or_empty t)
             else fallback)"

definition required_stable :: nat where
  "required_stable = 6"

definition max_polls :: nat where
  "max_polls = 80"

text \<open>
  The stabilisation loop \<open>for _ in range(80)\<close>. \<open>rd i\<close> is what \<open>_read_target\<close> returns at
  poll number \<open>i\<close> (or the exception it raises), \<open>n\<close> the number of iterations left,
  \<open>tr\<close> and \<open>sc\<close> the variables \<open>translated\<close> and \<open>stable_count\<close>. The result is the value of
  \<open>translated\<close> when the loop is left, together with the number of polls performed.
\<close>

fun poll_loop ::
  "str \<Rightarrow> (nat \<Rightarrow> error + str) \<Rightarrow> nat \<Rightarrow> nat \<Rightarrow> str \<Rightarrow> nat \<Rightarrow> (error + str) \<times> nat"
where
  "poll_loop qs rd 0 i tr sc = (Inr tr, i)"
| "poll_loop qs rd (Suc n) i tr sc =
     (case rd i of
        Inl e \<Rightarrow> (Inl e, Suc i)
      | Inr current \<Rightarrow>
          if current = [] \<or> current = qs then poll_loop qs rd n (Suc i) tr 0
          else if current = tr then
            (if Suc sc \<ge> required_stable then (Inr tr, Suc i)
             else poll_loop qs rd n (Suc i) tr (Suc sc))
          else poll_loop qs rd n (Suc i) current 0)"

definition stabilize :: "python \<Rightarrow> str \<Rightarrow> (nat \<Rightarrow> error + str) \<Rightarrow> (error + str) \<times> nat" where
  "stabilize py query rd = poll_loop (strip py query) rd max_polls 0 [] 0"

text \<open>The page handle as the translation recipe uses it: the outcome of each call.\<close>

record deepl_page =
  dp_goto :: "str \<Rightarrow> error option"
  dp_wait_for_selector :: "error + bool"
  dp_click :: "error option"
  dp_press :: "string \<Rightarrow> error option"
  dp_type :: "str \<Rightarrow> error option"
  dp_target :: "nat \<Rightarrow> error + target_dom"

definition deepl_item :: "str \<Rightarrow> str \<Rightarrow> string \<Rightarrow> string \<Rightarrow> item" where
  "deepl_item src tgt source_lang target_lang =
     [(''source_text'', PStr src), (''translated_text'', PStr tgt),
      (''source_lang'', PStr (lit source_lang)), (''target_lang'', PStr (lit target_lang))]"

definition deepl_url :: "string \<Rightarrow> string \<Rightarrow> str" where
  "deepl_url source_lang target_lang =
     lit (''https://www.deepl.com/en/translator#'' @ source_lang @ ''/'' @ target_lang @ ''/'')"

definition source_selector :: string where
  \<open>source_selector = ''d-textarea[data-testid="translator-source-input"]''\<close>

definition dp_read :: "python \<Rightarrow> deepl_page \<Rightarrow> nat \<Rightarrow> error + str" where
  "dp_read py page i =
     (case dp_target page i of Inl e \<Rightarrow> Inl e | Inr d \<Rightarrow> Inr (read_target py d))"

text \<open>
  A straight-line sequence of awaited page calls: each is issued in turn, and the first one
  that raises ends the sequence. The result is the exception, if any, and the calls issued.
\<close>

fun run_steps :: "(action \<times> error option) list \<Rightarrow> error option \<times> action list" where
  "run_steps [] = (None, [])"
| "run_steps ((a, r) # rest) =
     (case r of
        Some e \<Rightarrow> (Some e, [a])
      | None \<Rightarrow> (case run_steps rest of (x, t) \<Rightarrow> (x, a # t)))"

definition deepl_enter_text :: "deepl_page \<Rightarrow> str \<Rightarrow> str \<Rightarrow> error option \<times> action list" where
  "deepl_enter_text page url query =
     run_steps
       [(Goto url, dp_goto page url),
        (WaitForSelector source_selector,
           (case dp_wait_for_selector page of
              Inl e \<Rightarrow> Some e
            | Inr found \<Rightarrow>
                if found then None
                else Some (RuntimeError (lit ''Could not find DeepL source input'')))),
        (Click, dp_click page),
        (Press ''Control+a'', dp_press page ''Control+a''),
        (Press ''Backspace'', dp_press page ''Backspace''),
        (TypeText query, dp_type page query)]"

definition timeout_error :: error where
  "timeout_error = RuntimeError (lit ''Translation did not appear within timeout'')"

definition deepl_finish ::
  "str \<Rightarrow> string \<Rightarrow> string \<Rightarrow> error + str \<Rightarrow> error + scrape_result"
where
  "deepl_finish query source_lang target_lang r =
     (case r of
        Inl e \<Rightarrow> Inl e
      | Inr translated \<Rightarrow>
          if translated = [] then Inl timeout_error
          else Inr (ScrapeResult [deepl_item query translated source_lang target_lang]))"

text \<open>
  \<open>Scraper.scrape\<close> of the translation recipe. The second component is the list of calls
  made on the page, the failing one included.
\<close>

definition deepl_scrape ::
  "python \<Rightarrow> string \<Rightarrow> deepl_page \<Rightarrow> (string \<rightharpoonup> str)
     \<Rightarrow> (error + scrape_result) \<times> action list"
where
  "deepl_scrape py endpoint page params =
     (case map_of LANG_PAIRS endpoint of
        None \<Rightarrow> (Inl (KeyError endpoint), [])
      | Some (source_lang, target_lang) \<Rightarrow>
          let query = or_empty (params ''query'') in
          if strip py query = [] then
            (Inr (ScrapeResult [deepl_item [] [] source_lang target_lang]), [])
          else
            (case deepl_enter_text page (deepl_url source_lang target_lang) query of
               (Some e, t) \<Rightarrow> (Inl e, t)
             | (None, t) \<Rightarrow>
                 (case stabilize py query (dp_read py page) of
                    (r, polls) \<Rightarrow>
                      (deepl_finish query source_lang target_lang r,
                       t @ concat (replicate polls [Sleep, ReadTarget])))))"

text \<open>
  Following the spec's words: a non-trivial value "remains unchanged for the required-stability
  count within the maximum attempts" when some poll returns a value that is neither empty nor
  the original input and the next \<open>required_stable\<close> polls return the same value.
\<close>

definition stable_at :: "str \<Rightarrow> (nat \<Rightarrow> error + str) \<Rightarrow> nat \<Rightarrow> bool" where
  "stable_at qs rd i =
     (case rd i of
        Inl e \<Rightarrow> False
      | Inr v \<Rightarrow>
          v \<noteq> [] \<and> v \<noteq> qs \<and> list_all (\<lambda>j. rd (i + j) = Inr v) [1..<Suc required_stable])"

definition stabilises :: "str \<Rightarrow> (nat \<Rightarrow> error + str) \<Rightarrow> bool" where
  "stabilises qs rd = list_ex (stable_at qs rd) [0..<max_polls - required_stable]"

section \<open>Request parameters\<close>

text \<open>The slice \<open>xs[:n]\<close>; a negative \<open>n\<close> counts from the end.\<close>

definition py_take :: "int \<Rightarrow> 'a list \<Rightarrow> 'a list" where
  "py_take n xs = (if 0 \<le> n then take (nat n) xs else take (length xs - nat (- n)) xs)"

text \<open>\<open>params.get(key, default)\<close>.\<close>

definition get_default :: "(string \<rightharpoonup> str) \<Rightarrow> string \<Rightarrow> str \<Rightarrow> str" where
  "get_default params key d = (case params key of None \<Rightarrow> d | Some v \<Rightarrow> v)"

text \<open>The em-dash of the messages.\<close>

definition em_dash :: int where
  "em_dash = 0x2014"

definition missing_query :: error where
  "missing_query =
     RuntimeError (lit ''Missing search query '' @ [em_dash] @ lit '' pass q=<query>'')"

text \<open>
  The validation of the parameters that opens \<open>scrape\<close> of the search-engine recipe and
  \<open>_search\<close> of the encyclopedia recipe, which is the same code: the stripped query, \<open>count\<close>
  and \<open>page_num\<close>.
\<close>

definition search_params ::
  "python \<Rightarrow> (string \<rightharpoonup> str) \<Rightarrow> error + (str \<times> int \<times> int)"
where
  "search_params py params =
     (let query = strip py (or_empty (params ''query'')) in
      if query = [] then Inl missing_query
      else
        and_then (to_int py (get_default params ''count'' (lit ''20''))) (\<lambda>c.
        and_then (to_int py (get_default params ''page'' (lit ''1''))) (\<lambda>p.
          Inr (query, min c 50, max p 1))))"

section \<open>Elements of a page\<close>

text \<open>
  An element handle of the browser. It answers \<open>text_content()\<close>, \<open>get_attribute(name)\<close>,
  \<open>query_selector(sel)\<close> and \<open>query_selector_all(sel)\<close>, and the two expressions the
  recipes evaluate on it: \<open>el.tagName\<close> and, as a new handle, \<open>el.nextElementSibling\<close>.
  Each call may raise. The handle of the next sibling comes with its truth value, which is
  what \<open>if not sibling\<close> tests.
\<close>

datatype node = Node
  (text_content: "error + str option")
  (get_attribute: "string \<Rightarrow> error + str option")
  (query_selector: "string \<Rightarrow> error + node option")
  (query_selector_all: "string \<Rightarrow> error + node list")
  (tag_name: "error + str")
  (next_sibling: "error + (bool \<times> node)")

text \<open>\<open>(await el.text_content() or "").strip()\<close>.\<close>

definition elem_text :: "python \<Rightarrow> node \<Rightarrow> error + str" where
  "elem_text py el = and_then (text_content el) (\<lambda>t. Inr (strip py (or_empty t)))"

section \<open>The search-engine recipe\<close>

definition brave_supports :: "string \<Rightarrow> bool" where
  "brave_supports endpoint = (endpoint = ''search'')"

text \<open>
  The selector-fallback loop of \<open>_parse_snippet\<close>, used for the title and the description:
  \<open>v\<close> is the variable assigned in the loop.
\<close>

fun first_text :: "python \<Rightarrow> node \<Rightarrow> string list \<Rightarrow> str \<Rightarrow> error + str" where
  "first_text py sn [] v = Inr v"
| "first_text py sn (sel # sels) v =
     (case query_selector sn sel of
        Inl e \<Rightarrow> Inl e
      | Inr None \<Rightarrow> first_text py sn sels v
      | Inr (Some el) \<Rightarrow>
          (case elem_text py el of
             Inl e \<Rightarrow> Inl e
           | Inr t \<Rightarrow> if t \<noteq> [] then Inr t else first_text py sn sels t))"

text \<open>
  The loop over the links: it ends at the first link whose \<open>href\<close> does not contain
  \<open>brave.com\<close>.
\<close>

fun first_external :: "node list \<Rightarrow> error + str" where
  "first_external [] = Inr []"
| "first_external (link # links) =
     (case get_attribute link ''href'' of
        Inl e \<Rightarrow> Inl e
      | Inr h \<Rightarrow>
          if \<not> sublist (lit ''brave.com'') (or_empty h) then Inr (or_empty h)
          else first_external links)"

definition title_selectors :: "string list" where
  "title_selectors = [''[class*='title']'', ''a h2'', ''a h3'']"

definition desc_selectors :: "string list" where
  "desc_selectors = [''.content'', ''[class*='snippet-description']'', ''p'']"

definition snippet_title :: "python \<Rightarrow> node \<Rightarrow> error + str" where
  "snippet_title py sn = first_text py sn title_selectors []"

definition snippet_href :: "node \<Rightarrow> error + str" where
  "snippet_href sn =
     (case query_selector_all sn ''a[href^='http']'' of
        Inl e \<Rightarrow> Inl e
      | Inr links \<Rightarrow> first_external links)"

definition snippet_desc :: "python \<Rightarrow> node \<Rightarrow> error + str" where
  "snippet_desc py sn = first_text py sn desc_selectors []"

definition snippet_site :: "python \<Rightarrow> node \<Rightarrow> error + str" where
  "snippet_site py sn =
     (case query_selector sn ''[class*='site-name']'' of
        Inl e \<Rightarrow> Inl e
      | Inr None \<Rightarrow> Inr []
      | Inr (Some site_el) \<Rightarrow>
          (case elem_text py site_el of
             Inl e \<Rightarrow> Inl e
           | Inr site \<Rightarrow> Inr (strip py (takeWhile (\<lambda>c. c \<noteq> 10) site))))"

definition snippet_item :: "str \<Rightarrow> str \<Rightarrow> str \<Rightarrow> str \<Rightarrow> item" where
  "snippet_item title href desc site =
     [(''title'', PStr title), (''url'', PStr href), (''snippet'', PStr desc)]
     @ (if site \<noteq> [] then [(''site'', PStr site)] else [])"

text \<open>\<open>_parse_snippet\<close>: \<open>None\<close> when the snippet is discarded. Every exception is caught.\<close>

definition parse_snippet :: "python \<Rightarrow> node \<Rightarrow> item option" where
  "parse_snippet py sn =
     (case snippet_title py sn of
        Inl e \<Rightarrow> None
      | Inr title \<Rightarrow>
          if title = [] then None
          else
            (case snippet_href sn of
               Inl e \<Rightarrow> None
             | Inr href \<Rightarrow>
                 if href = [] then None
                 else
                   (case snippet_desc py sn of
                      Inl e \<Rightarrow> None
                    | Inr desc \<Rightarrow>
                        (case snippet_site py sn of
                           Inl e \<Rightarrow> None
                         | Inr site \<Rightarrow> Some (snippet_item title href desc site)))))"

text \<open>The page handle as the search-engine recipe uses it.\<close>

record brave_page =
  bp_add_init_script :: "error option"
  bp_goto :: "str \<Rightarrow> error option"
  bp_title :: "error + str"
  bp_wait_for_selector :: "error option"
  bp_query_selector_all :: "error + node list"

definition captcha_error :: error where
  "captcha_error =
     RuntimeError (lit ''Brave Search returned a CAPTCHA '' @ [em_dash]
                   @ lit '' headless browser was detected'')"

text \<open>The f-string of the address: the quoted query, then the offset.\<close>

definition brave_url :: "python \<Rightarrow> str \<Rightarrow> int \<Rightarrow> error + str" where
  "brave_url py query page_num =
     and_then (quote py ''/'' query) (\<lambda>q.
     and_then (to_str py ((page_num - 1) * 20)) (\<lambda>offset.
       Inr (lit ''https://search.brave.com/search?q='' @ q @ lit ''&offset='' @ offset)))"

definition results_selector :: string where
  \<open>results_selector = ''#results .snippet[data-type="web"]''\<close>

text \<open>Navigation up to reading the title.\<close>

definition brave_navigate :: "brave_page \<Rightarrow> str \<Rightarrow> (error + str) \<times> action list" where
  "brave_navigate page url =
     (case run_steps [(AddInitScript, bp_add_init_script page), (Goto url, bp_goto page url)] of
        (Some e, t) \<Rightarrow> (Inl e, t)
      | (None, t) \<Rightarrow> (bp_title page, t @ [Sleep, Title]))"

text \<open>The loop over \<open>snippets[:count]\<close>.\<close>

definition parse_snippets :: "python \<Rightarrow> node list \<Rightarrow> item list" where
  "parse_snippets py sns = List.map_filter (parse_snippet py) sns"

text \<open>Waiting for the results and extracting them.\<close>

definition brave_extract ::
  "python \<Rightarrow> brave_page \<Rightarrow> int \<Rightarrow> int \<Rightarrow> (error + scrape_result) \<times> action list"
where
  "brave_extract py page count page_num =
     (case bp_wait_for_selector page of
        Some e \<Rightarrow>
          (Inr \<lparr>items = [], current_page = page_num, has_next = False\<rparr>,
           [WaitForSelector results_selector])
      | None \<Rightarrow>
          (case bp_query_selector_all page of
             Inl e \<Rightarrow> (Inl e, [WaitForSelector results_selector, QuerySelectorAll results_selector])
           | Inr snippets \<Rightarrow>
               (Inr \<lparr>items = parse_snippets py (py_take count snippets),
                      current_page = page_num,
                      has_next = (length snippets \<ge> 10)\<rparr>,
                [WaitForSelector results_selector, QuerySelectorAll results_selector])))"

text \<open>\<open>Scraper.scrape\<close> of the search-engine recipe, with the calls made on the page.\<close>

definition brave_scrape ::
  "python \<Rightarrow> string \<Rightarrow> brave_page \<Rightarrow> (string \<rightharpoonup> str)
     \<Rightarrow> (error + scrape_result) \<times> action list"
where
  "brave_scrape py endpoint page params =
     (case search_params py params of
        Inl e \<Rightarrow> (Inl e, [])
      | Inr (query, count, page_num) \<Rightarrow>
          (case brave_url py query page_num of
             Inl e \<Rightarrow> (Inl e, [])
           | Inr url \<Rightarrow>
               (case brave_navigate page url of
                  (Inl e, t) \<Rightarrow> (Inl e, t)
                | (Inr title, t) \<Rightarrow>
                    if sublist (lit ''captcha'') (lower py title) then (Inl captcha_error, t)
                    else
                      (case brave_extract py page count page_num of
                         (r, t') \<Rightarrow> (r, t @ t')))))"

section \<open>JSON encoding\<close>

text \<open>\<open>sep.join(parts)\<close>.\<close>

fun join :: "str \<Rightarrow> str list \<Rightarrow> str" where
  "join sep [] = []"
| "join sep [x] = x"
| "join sep (x # y # ys) = x @ sep @ join sep (y # ys)"

text \<open>
  \<open>json.dumps(val, ensure_ascii=False)\<close> with the default separators: texts are quoted, with
  the quote, the backslash and the control characters below \<open>0x20\<close> escaped and every other
  character kept; a float is written as the interpreter prints it, an integer in decimal
  (the interpreter's limit on the number of digits is not modelled: the nested values of an
  article hold texts only).
\<close>

fun show_nat :: "nat \<Rightarrow> str" where
  "show_nat n =
     (if n < 10 then [48 + int n] else show_nat (n div 10) @ [48 + int (n mod 10)])"

definition show_int :: "int \<Rightarrow> str" where
  "show_int i = (if i < 0 then 45 # show_nat (nat (- i)) else show_nat (nat i))"

definition hex_lower :: "int \<Rightarrow> int" where
  "hex_lower d = (if d < 10 then 48 + d else 87 + d)"

definition json_escape_char :: "int \<Rightarrow> str" where
  "json_escape_char c =
     (if c = 0x22 then [0x5C, 0x22]
      else if c = 0x5C then [0x5C, 0x5C]
      else if c = 0x0A then 0x5C # lit ''n''
      else if c = 0x0D then 0x5C # lit ''r''
      else if c = 0x09 then 0x5C # lit ''t''
      else if c = 0x08 then 0x5C # lit ''b''
      else if c = 0x0C then 0x5C # lit ''f''
      else if c < 32 then 0x5C # lit ''u00'' @ [hex_lower (c div 16), hex_lower (c mod 16)]
      else [c])"

definition json_string :: "str \<Rightarrow> str" where
  "json_string s = [0x22] @ concat (map json_escape_char s) @ [0x22]"

fun json_dumps :: "pyval \<Rightarrow> str" where
  "json_dumps PNone = lit ''null''"
| "json_dumps (PBool b) = (if b then lit ''true'' else lit ''false'')"
| "json_dumps (PInt i) = show_int i"
| "json_dumps (PFloat f) = f"
| "json_dumps (PStr s) = json_string s"
| "json_dumps (PList xs) = lit ''['' @ join (lit '', '') (map json_dumps xs) @ lit '']''"
| "json_dumps (PDict kvs) =
     lit ''{''
     @ join (lit '', '') (map (\<lambda>(k, v). json_string k @ lit '': '' @ json_dumps v) kvs)
     @ lit ''}''"

text \<open>\<open>isinstance(val, (list, dict))\<close>.\<close>

fun is_nested :: "pyval \<Rightarrow> bool" where
  "is_nested (PList xs) = True"
| "is_nested (PDict kvs) = True"
| "is_nested v = False"

text \<open>
  The loop \<open>for key, val in item.items(): if isinstance(val, (list, dict)): item[key] = json.dumps(val)\<close>.
  An assignment \<open>item[key] = v\<close> is \<open>AList.update key v item\<close>: the key keeps its place, a new
  key goes to the end.
\<close>

fun flatten_loop :: "(string \<times> pyval) list \<Rightarrow> item \<Rightarrow> item" where
  "flatten_loop [] item = item"
| "flatten_loop ((key, val) # rest) item =
     flatten_loop rest
       (if is_nested val then AList.update key (PStr (json_dumps val)) item else item)"

definition flatten :: "item \<Rightarrow> item" where
  "flatten item = flatten_loop item item"

section \<open>The encyclopedia recipe\<close>

definition wikipedia_supports :: "string \<Rightarrow> bool" where
  "wikipedia_supports endpoint = (endpoint \<in> set [''search'', ''article''])"

text \<open>
  The page handle as the encyclopedia recipe uses it: \<open>wp_url\<close> is \<open>page.url\<close> after the
  navigation, \<open>wp_document\<close> answers the queries made on the page itself.
\<close>

record wiki_page =
  wp_goto :: "str \<Rightarrow> error option"
  wp_url :: str
  wp_wait_for_selector :: "error option"
  wp_document :: node

text \<open>\<open>x = (await el.text_content() or "").strip() if el else ""\<close> for \<open>el = query_selector(sel)\<close>.\<close>

definition optional_text :: "python \<Rightarrow> node \<Rightarrow> string \<Rightarrow> error + str" where
  "optional_text py scope sel =
     and_then (query_selector scope sel)
       (\<lambda>el. case el of None \<Rightarrow> Inr [] | Some e \<Rightarrow> elem_text py e)"

text \<open>The body of the loop of \<open>_extract_search_results\<close>; \<open>Inr None\<close> is the \<open>continue\<close>.\<close>

definition search_result_item :: "python \<Rightarrow> node \<Rightarrow> error + item option" where
  "search_result_item py result =
     and_then (query_selector result ''.mw-search-result-heading a'')
       (\<lambda>heading. case heading of
          None \<Rightarrow> Inr None
        | Some h \<Rightarrow>
            and_then (elem_text py h) (\<lambda>title.
            and_then (get_attribute h ''href'') (\<lambda>a.
              let href = or_empty a;
                  url = (if prefix (lit ''/'') href then lit ''https://en.wikipedia.org'' @ href
                         else href)
              in
            and_then (optional_text py result ''.searchresult'') (\<lambda>snippet.
            and_then (optional_text py result ''.mw-search-result-data'') (\<lambda>size_info.
              Inr (Some ([(''title'', PStr title), (''url'', PStr url), (''snippet'', PStr snippet)]
                   @ (if size_info \<noteq> [] then [(''size_info'', PStr size_info)] else []))))))))"

text \<open>An exception inside the loop body skips the entry.\<close>

definition search_result_entry :: "python \<Rightarrow> node \<Rightarrow> item option" where
  "search_result_entry py result =
     (case search_result_item py result of Inl e \<Rightarrow> None | Inr x \<Rightarrow> x)"

definition extract_search_results :: "python \<Rightarrow> node \<Rightarrow> int \<Rightarrow> error + item list" where
  "extract_search_results py doc count =
     and_then (query_selector_all doc ''.mw-search-result'')
       (\<lambda>results. Inr (List.map_filter (search_result_entry py) (py_take count results)))"

text \<open>\<open>_extract_summary\<close>: the first three paragraphs of at least ten characters.\<close>

fun summary_loop :: "python \<Rightarrow> node list \<Rightarrow> str list \<Rightarrow> error + str list" where
  "summary_loop py [] paragraphs = Inr paragraphs"
| "summary_loop py (el # els) paragraphs =
     and_then (elem_text py el)
       (\<lambda>t. if t = [] \<or> length t < 10 then summary_loop py els paragraphs
            else if length (paragraphs @ [t]) \<ge> 3 then Inr (paragraphs @ [t])
            else summary_loop py els (paragraphs @ [t]))"

definition extract_summary :: "python \<Rightarrow> node \<Rightarrow> error + str" where
  "extract_summary py doc =
     and_then (query_selector_all doc ''#mw-content-text .mw-parser-output > p'')
       (\<lambda>els. and_then (summary_loop py els []) (\<lambda>paragraphs. Inr (join [10, 10] paragraphs)))"

text \<open>\<open>re.sub(r"\s+", " ", val)\<close>.\<close>

function collapse_ws :: "python \<Rightarrow> str \<Rightarrow> str" where
  "collapse_ws py [] = []"
| "collapse_ws py (c # cs) =
     (if py_re_space py c then 32 # collapse_ws py (dropWhile (py_re_space py) cs)
      else c # collapse_ws py cs)"
  by pat_completeness auto
termination
  by (relation "measure (\<lambda>(py, s). length s)") (auto simp: length_dropWhile_le less_Suc_eq_le)

text \<open>\<open>_extract_infobox\<close>.\<close>

fun infobox_loop ::
  "python \<Rightarrow> node list \<Rightarrow> (str \<times> pyval) list \<Rightarrow> error + (str \<times> pyval) list"
where
  "infobox_loop py [] infobox = Inr infobox"
| "infobox_loop py (row # rows) infobox =
     and_then (query_selector row ''th'') (\<lambda>header.
     and_then (query_selector row ''td'') (\<lambda>data.
       case (header, data) of
         (Some h, Some d) \<Rightarrow>
           and_then (elem_text py h) (\<lambda>key.
           and_then (elem_text py d) (\<lambda>val.
             if key \<noteq> [] \<and> val \<noteq> [] then
               infobox_loop py rows (AList.update key (PStr (collapse_ws py val)) infobox)
             else infobox_loop py rows infobox))
       | _ \<Rightarrow> infobox_loop py rows infobox))"

definition extract_infobox :: "python \<Rightarrow> node \<Rightarrow> error + (str \<times> pyval) list" where
  "extract_infobox py doc =
     and_then (query_selector doc ''.infobox, .infobox_v2'')
       (\<lambda>table. case table of
          None \<Rightarrow> Inr []
        | Some t \<Rightarrow> and_then (query_selector_all t ''tr'') (\<lambda>rows. infobox_loop py rows []))"

text \<open>The loop of \<open>_extract_toc\<close> and \<open>_extract_categories\<close>: the non-empty trimmed texts.\<close>

fun nonempty_texts :: "python \<Rightarrow> node list \<Rightarrow> str list \<Rightarrow> error + str list" where
  "nonempty_texts py [] acc = Inr acc"
| "nonempty_texts py (entry # entries) acc =
     and_then (elem_text py entry)
       (\<lambda>t. nonempty_texts py entries (if t \<noteq> [] then acc @ [t] else acc))"

definition extract_toc :: "python \<Rightarrow> node \<Rightarrow> error + str list" where
  "extract_toc py doc =
     and_then (query_selector_all doc ''#toc .toctext, .vector-toc-text, .mw-toc-text .toctext'')
       (\<lambda>entries. nonempty_texts py entries [])"

definition extract_categories :: "python \<Rightarrow> node \<Rightarrow> error + str list" where
  "extract_categories py doc =
     and_then (query_selector_all doc ''#mw-normal-catlinks ul li a'')
       (\<lambda>cat_links. nonempty_texts py cat_links [])"

text \<open>
  \<open>_extract_sections\<close>. The walk over the siblings of a heading is capped at 50 steps; it
  ends at a handle that is false, at a heading, or with the exception of a call.
\<close>

fun sibling_walk ::
  "python \<Rightarrow> nat \<Rightarrow> bool \<times> node \<Rightarrow> str list \<Rightarrow> error + str list"
where
  "sibling_walk py 0 sibling content_parts = Inr content_parts"
| "sibling_walk py (Suc n) (truth, s) content_parts =
     (if \<not> truth then Inr content_parts
      else
        and_then (tag_name s) (\<lambda>tag.
          if tag = lit ''H2'' \<or> tag = lit ''H3'' then Inr content_parts
          else
            and_then
              (if tag = lit ''P'' then
                 and_then (elem_text py s) (\<lambda>t.
                   Inr (if t \<noteq> [] then content_parts @ [t] else content_parts))
               else Inr content_parts)
              (\<lambda>parts. and_then (next_sibling s) (\<lambda>sibling. sibling_walk py n sibling parts))))"

text \<open>
  \<open>re.sub(r"\[edit\]$", "", title).strip()\<close>: the pattern matches at the end of the text, or
  just before a newline that ends it.
\<close>

definition remove_edit :: "python \<Rightarrow> str \<Rightarrow> str" where
  "remove_edit py title =
     strip py
       (if suffix (lit ''[edit]'') title then take (length title - 6) title
        else if suffix (lit ''[edit]'' @ [10]) title then take (length title - 7) title @ [10]
        else title)"

definition meta_sections :: "str list" where
  "meta_sections =
     [lit ''references'', lit ''external links'', lit ''notes'', lit ''further reading'']"

definition section_entry :: "python \<Rightarrow> node \<Rightarrow> error + pyval option" where
  "section_entry py heading =
     and_then (query_selector heading ''.mw-headline, h2, h3'') (\<lambda>found.
       let headline = (case found of None \<Rightarrow> heading | Some h \<Rightarrow> h) in
     and_then (elem_text py headline) (\<lambda>t.
       let title = remove_edit py t in
       if title = [] \<or> lower py title \<in> set meta_sections then Inr None
       else
         and_then (next_sibling heading) (\<lambda>sibling.
         and_then (sibling_walk py 50 sibling []) (\<lambda>content_parts.
         and_then (tag_name heading) (\<lambda>tag.
           Inr (Some (PDict
             [(lit ''heading'', PStr title),
              (lit ''level'', PStr (if tag = lit ''H2'' then lit ''h2'' else lit ''h3'')),
              (lit ''content'', PStr (join [10, 10] content_parts))])))))))"

fun sections_loop :: "python \<Rightarrow> node list \<Rightarrow> pyval list \<Rightarrow> error + pyval list" where
  "sections_loop py [] sections = Inr sections"
| "sections_loop py (heading # headings) sections =
     and_then (section_entry py heading)
       (\<lambda>entry. sections_loop py headings
          (case entry of None \<Rightarrow> sections | Some s \<Rightarrow> sections @ [s]))"

definition extract_sections :: "python \<Rightarrow> node \<Rightarrow> error + pyval list" where
  "extract_sections py doc =
     and_then
       (query_selector_all doc
          ''#mw-content-text .mw-parser-output > h2, #mw-content-text .mw-parser-output > h3'')
       (\<lambda>headings. sections_loop py headings [])"

text \<open>The item of \<open>_extract_article\<close> before it is flattened.\<close>

definition article_item ::
  "str option \<Rightarrow> str \<Rightarrow> str \<Rightarrow> (str \<times> pyval) list \<Rightarrow> str list \<Rightarrow> pyval list
     \<Rightarrow> str list \<Rightarrow> nat \<Rightarrow> item"
where
  "article_item title url summary infobox toc sections categories lang_count =
     (let i1 = (case title of None \<Rightarrow> [] | Some t \<Rightarrow> AList.update ''title'' (PStr t) []);
          i2 = AList.update ''url'' (PStr url) i1;
          i3 = AList.update ''summary'' (PStr summary) i2;
          i4 = (if infobox \<noteq> [] then AList.update ''infobox'' (PDict infobox) i3 else i3);
          i5 = (if toc \<noteq> [] then AList.update ''table_of_contents'' (PList (map PStr toc)) i4
                else i4);
          i6 = AList.update ''sections'' (PList sections) i5;
          i7 = (if categories \<noteq> []
                then AList.update ''categories'' (PList (map PStr categories)) i6 else i6);
          i8 = (if lang_count \<noteq> 0
                then AList.update ''languages_available'' (PInt (int lang_count)) i7 else i7)
      in i8)"

definition extract_title :: "python \<Rightarrow> node \<Rightarrow> error + str option" where
  "extract_title py doc =
     and_then (query_selector doc ''#firstHeading'')
       (\<lambda>title_el. case title_el of
          None \<Rightarrow> Inr None
        | Some el \<Rightarrow> and_then (elem_text py el) (\<lambda>t. Inr (Some t)))"

definition extract_article_item :: "python \<Rightarrow> wiki_page \<Rightarrow> error + item" where
  "extract_article_item py page =
     (let doc = wp_document page in
      and_then (extract_title py doc) (\<lambda>title.
      and_then (extract_summary py doc) (\<lambda>summary.
      and_then (extract_infobox py doc) (\<lambda>infobox.
      and_then (extract_toc py doc) (\<lambda>toc.
      and_then (extract_sections py doc) (\<lambda>sections.
      and_then (extract_categories py doc) (\<lambda>categories.
      and_then (query_selector_all doc ''#p-lang li, .interlanguage-link'') (\<lambda>langs.
        Inr (article_item title (wp_url page) summary infobox toc sections categories
               (length langs))))))))))"

definition extract_article :: "python \<Rightarrow> wiki_page \<Rightarrow> error + scrape_result" where
  "extract_article py page =
     and_then (extract_article_item py page)
       (\<lambda>item. Inr \<lparr>items = [flatten item], current_page = 1, has_next = False\<rparr>)"

text \<open>\<open>_article_from_redirect\<close>.\<close>

definition article_from_redirect :: "python \<Rightarrow> wiki_page \<Rightarrow> str \<Rightarrow> error + scrape_result" where
  "article_from_redirect py page original_query =
     and_then (extract_article py page)
       (\<lambda>result. Inr (case items result of
                        [] \<Rightarrow> result
                      | it # its \<Rightarrow>
                          result\<lparr>items := AList.update ''redirected_from'' (PStr original_query) it
                                           # its\<rparr>))"

definition wiki_search_url :: "python \<Rightarrow> str \<Rightarrow> int \<Rightarrow> error + str" where
  "wiki_search_url py query page_num =
     and_then (quote py ''/'' query) (\<lambda>q.
     and_then (to_str py ((page_num - 1) * 20)) (\<lambda>offset.
       Inr (lit ''https://en.wikipedia.org/w/index.php?search='' @ q
            @ lit ''&title=Special:Search&ns0=1&offset='' @ offset)))"

definition raise_if :: "error option \<Rightarrow> error + unit" where
  "raise_if r = (case r of Some e \<Rightarrow> Inl e | None \<Rightarrow> Inr ())"

text \<open>The test of \<open>_search\<close> for a search that the site answered with an article.\<close>

definition redirected :: "wiki_page \<Rightarrow> bool" where
  "redirected page =
     (sublist (lit ''/wiki/'') (wp_url page) \<and> \<not> sublist (lit ''Special:Search'') (wp_url page))"

text \<open>\<open>_search\<close>.\<close>

definition wiki_search ::
  "python \<Rightarrow> wiki_page \<Rightarrow> (string \<rightharpoonup> str) \<Rightarrow> error + scrape_result"
where
  "wiki_search py page params =
     and_then (search_params py params) (\<lambda>(query, count, page_num).
     and_then (wiki_search_url py query page_num) (\<lambda>url.
     and_then (raise_if (wp_goto page url)) (\<lambda>u.
       if redirected page then article_from_redirect py page query
       else
         and_then (raise_if (wp_wait_for_selector page)) (\<lambda>u.
         and_then (query_selector (wp_document page) ''.mw-search-nonefound'') (\<lambda>none_found.
           if none_found \<noteq> None then
             Inr \<lparr>items = [], current_page = page_num, has_next = False\<rparr>
           else
             and_then (extract_search_results py (wp_document page) count) (\<lambda>its.
             and_then (query_selector (wp_document page) ''.mw-nextlink'') (\<lambda>next_link.
               Inr \<lparr>items = its, current_page = page_num,
                     has_next = (next_link \<noteq> None)\<rparr>)))))))"

definition missing_title :: error where
  "missing_title =
     RuntimeError (lit ''Missing article title '' @ [em_dash] @ lit '' pass q=<title>'')"

definition replace_spaces :: "str \<Rightarrow> str" where
  "replace_spaces s = map (\<lambda>c. if c = 32 then 95 else c) s"

text \<open>\<open>_article\<close>.\<close>

definition wiki_article ::
  "python \<Rightarrow> wiki_page \<Rightarrow> (string \<rightharpoonup> str) \<Rightarrow> error + scrape_result"
where
  "wiki_article py page params =
     (let query = strip py (or_empty (params ''query'')) in
      if query = [] then Inl missing_title
      else
        and_then (quote py ''/:'' (replace_spaces query)) (\<lambda>slug.
        and_then (raise_if (wp_goto page (lit ''https://en.wikipedia.org/wiki/'' @ slug))) (\<lambda>u.
        and_then (query_selector (wp_document page) ''.noarticletext'') (\<lambda>no_article.
          if no_article \<noteq> None then
            Inl (RuntimeError (lit ''Wikipedia article not found: '' @ query))
          else extract_article py page))))"

text \<open>\<open>Scraper.scrape\<close> of the encyclopedia recipe.\<close>

definition wikipedia_scrape ::
  "python \<Rightarrow> string \<Rightarrow> wiki_page \<Rightarrow> (string \<rightharpoonup> str) \<Rightarrow> error + scrape_result"
where
  "wikipedia_scrape py endpoint page params =
     (if endpoint = ''search'' then wiki_search py page params else wiki_article py page params)"

section \<open>The social-timeline recipe\<close>

definition x_supports :: "string \<Rightarrow> bool" where
  "x_supports endpoint = (endpoint = ''posts'')"

text \<open>
  What the recipe reads from outside: the two environment variables (empty when unset), the
  lines of \<open>~/.bird_auth\<close> if the file exists (or the exception that reading it raises), the
  run of the \<open>bird\<close> command (return code, standard output, standard error, as bytes), the
  decoding of bytes (\<open>None\<close> when it raises), the JSON parser, and the formatting of a value
  that is not a text inside an f-string. The page handle is not used.
\<close>

record x_env =
  env_auth_token :: str
  env_ct0 :: str
  bird_auth_file :: "(error + str list) option"
  run_bird :: "str list \<Rightarrow> error + (int \<times> string \<times> string)"
  x_decode :: "string \<Rightarrow> str option"
  json_loads :: "str \<Rightarrow> error + pyval"
  x_format :: "pyval \<Rightarrow> error + str"

definition missing_credentials :: error where
  "missing_credentials =
     RuntimeError (lit ''Missing X/Twitter credentials. ''
                   @ lit ''Set BIRD_AUTH_TOKEN + BIRD_CT0 env vars or create ~/.bird_auth'')"

text \<open>The loop over the lines of the credentials file.\<close>

fun auth_lines :: "python \<Rightarrow> str list \<Rightarrow> str \<times> str \<Rightarrow> str \<times> str" where
  "auth_lines py [] (auth_token, ct0) = (auth_token, ct0)"
| "auth_lines py (l # ls) (auth_token, ct0) =
     (let line = strip py l in
      if prefix (lit ''AUTH_TOKEN='') line then auth_lines py ls (drop 11 line, ct0)
      else if prefix (lit ''CT0='') line then auth_lines py ls (auth_token, drop 4 line)
      else auth_lines py ls (auth_token, ct0))"

definition check_auth :: "str \<times> str \<Rightarrow> error + (str \<times> str)" where
  "check_auth a =
     (case a of (auth_token, ct0) \<Rightarrow>
        if auth_token = [] \<or> ct0 = [] then Inl missing_credentials else Inr (auth_token, ct0))"

definition load_auth :: "python \<Rightarrow> x_env \<Rightarrow> error + (str \<times> str)" where
  "load_auth py env =
     (if env_auth_token env \<noteq> [] \<and> env_ct0 env \<noteq> [] then Inr (env_auth_token env, env_ct0 env)
      else
        (case bird_auth_file env of
           None \<Rightarrow> check_auth (env_auth_token env, env_ct0 env)
         | Some (Inl e) \<Rightarrow> Inl e
         | Some (Inr ls) \<Rightarrow> check_auth (auth_lines py ls (env_auth_token env, env_ct0 env))))"

text \<open>\<open>d.get(key, default)\<close> on the pairs of a dictionary.\<close>

definition lookup :: "(str \<times> pyval) list \<Rightarrow> string \<Rightarrow> pyval \<Rightarrow> pyval" where
  "lookup kvs key d = (case map_of kvs (lit key) of None \<Rightarrow> d | Some v \<Rightarrow> v)"

text \<open>A value inside an f-string.\<close>

definition format_value :: "x_env \<Rightarrow> pyval \<Rightarrow> error + str" where
  "format_value env v = (case v of PStr s \<Rightarrow> Inr s | _ \<Rightarrow> x_format env v)"

text \<open>
  The body of the loop over the tweets. \<open>.get\<close> on a value that is not a dictionary and
  \<open>.startswith\<close> on a value that is not a text raise \<open>AttributeError\<close>.
\<close>

definition tweet_item :: "x_env \<Rightarrow> str \<Rightarrow> pyval \<Rightarrow> error + item" where
  "tweet_item env username tweet =
     (case tweet of
        PDict t \<Rightarrow>
          (case lookup t ''author'' (PDict []) of
             PDict a \<Rightarrow>
               and_then (format_value env (lookup a ''username'' (PStr username))) (\<lambda>name.
               and_then (format_value env (lookup t ''id'' (PStr []))) (\<lambda>ident.
                 case lookup t ''text'' (PStr []) of
                   PStr s \<Rightarrow>
                     Inr [(''text'', PStr s),
                          (''author'', lookup a ''username'' (PStr username)),
                          (''author_name'', lookup a ''name'' (PStr [])),
                          (''timestamp'', lookup t ''createdAt'' (PStr [])),
                          (''url'', PStr (lit ''https://x.com/'' @ name @ lit ''/status/'' @ ident)),
                          (''replies'', lookup t ''replyCount'' PNone),
                          (''reposts'', lookup t ''retweetCount'' PNone),
                          (''likes'', lookup t ''likeCount'' PNone),
                          (''views'', lookup t ''viewCount'' PNone),
                          (''is_retweet'', PBool (prefix (lit ''RT @'') s))]
                 | _ \<Rightarrow> Inl AttributeError))
           | _ \<Rightarrow> Inl AttributeError)
      | _ \<Rightarrow> Inl AttributeError)"

fun tweet_items :: "x_env \<Rightarrow> str \<Rightarrow> pyval list \<Rightarrow> item list \<Rightarrow> error + item list" where
  "tweet_items env username [] its = Inr its"
| "tweet_items env username (tweet # tweets) its =
     and_then (tweet_item env username tweet)
       (\<lambda>it. tweet_items env username tweets (its @ [it]))"

definition missing_username :: error where
  "missing_username =
     RuntimeError (lit ''Missing username '' @ [em_dash] @ lit '' pass q=<username>'')"

definition bird_command :: "str \<Rightarrow> str \<Rightarrow> str \<Rightarrow> str \<Rightarrow> str list" where
  "bird_command username count auth_token ct0 =
     [lit ''bird'', lit ''user-tweets'', username, lit ''-n'', count, lit ''--json'',
      lit ''--auth-token'', auth_token, lit ''--ct0'', ct0]"

definition decode :: "x_env \<Rightarrow> string \<Rightarrow> error + str" where
  "decode env b = (case x_decode env b of None \<Rightarrow> Inl UnicodeError | Some s \<Rightarrow> Inr s)"

text \<open>The branch of a failed run: the message of the tool decides the error.\<close>

definition bird_failure :: "python \<Rightarrow> x_env \<Rightarrow> str \<Rightarrow> string \<Rightarrow> error" where
  "bird_failure py env username stderr =
     (case decode env stderr of
        Inl e \<Rightarrow> e
      | Inr err \<Rightarrow>
          if sublist (lit ''Could not find user'') (strip py err)
             \<or> sublist (lit ''not found'') (lower py (strip py err))
          then RuntimeError (lit ''Account @'' @ username @ lit '' not found'')
          else RuntimeError (lit ''bird CLI failed: '' @ strip py err))"

text \<open>
  What follows the run of the command. The text handed to the parser starts with \<open>[\<close>, so
  the parser returns a list or raises; slicing any other value is given \<open>TypeError\<close>.
\<close>

definition x_parse_output ::
  "python \<Rightarrow> x_env \<Rightarrow> str \<Rightarrow> int \<Rightarrow> int \<times> string \<times> string \<Rightarrow> error + scrape_result"
where
  "x_parse_output py env username count out =
     (case out of (returncode, stdout, stderr) \<Rightarrow>
        if returncode \<noteq> 0 then Inl (bird_failure py env username stderr)
        else
          and_then (decode env stdout) (\<lambda>decoded.
            let raw_output = strip py decoded in
            if 91 \<notin> set raw_output then
              Inl (RuntimeError (lit ''No JSON output from bird CLI for @'' @ username))
            else
              and_then (json_loads env (dropWhile (\<lambda>c. c \<noteq> 91) raw_output))
                (\<lambda>tweets_data. case tweets_data of
                   PList tweets \<Rightarrow>
                     and_then (tweet_items env username (py_take count tweets) [])
                       (\<lambda>its. Inr \<lparr>items = its, current_page = 1,
                                     has_next = (int (length tweets) > count)\<rparr>)
                 | _ \<Rightarrow> Inl TypeError)))"

text \<open>\<open>Scraper.scrape\<close> of the social-timeline recipe.\<close>

definition x_scrape ::
  "python \<Rightarrow> string \<Rightarrow> x_env \<Rightarrow> (string \<rightharpoonup> str) \<Rightarrow> error + scrape_result"
where
  "x_scrape py endpoint env params =
     (let username = dropWhile (\<lambda>c. c = 64) (strip py (or_empty (params ''query''))) in
      if username = [] then Inl missing_username
      else
        and_then (to_int py (get_default params ''count'' (lit ''10''))) (\<lambda>c.
        and_then (load_auth py env) (\<lambda>(auth_token, ct0).
        and_then (to_str py (min c 50)) (\<lambda>count.
        and_then (run_bird env (bird_command username count auth_token ct0))
          (x_parse_output py env username (min c 50))))))"

section \<open>The four recipes together\<close>

text \<open>
  Following the spec's words: the recipes that claim an endpoint, in the order brave-search,
  deepl, wikipedia, x. The sources hold no registry; each recipe only has its \<open>supports\<close>.
\<close>

datatype recipe = Brave | DeepL | Wikipedia | X

fun supports :: "recipe \<Rightarrow> string \<Rightarrow> bool" where
  "supports Brave e = brave_supports e"
| "supports DeepL e = deepl_supports e"
| "supports Wikipedia e = wikipedia_supports e"
| "supports X e = x_supports e"

definition supporters :: "string \<Rightarrow> recipe list" where
  "supporters e = filter (\<lambda>r. supports r e) [Brave, DeepL, Wikipedia, X]"










section \<open>Concrete inputs\<close>

text \<open>
  A library to run the recipes on concrete requests and pages of ASCII text: it has the
  whitespace characters of the interpreter, reads and writes integers in ASCII decimal digits,
  leaves a non-ASCII character as it is when lowering, and quotes ASCII text. The requests
  and pages evaluated with it below are ASCII, apart from the blank query.
\<close>

definition spaces :: "int list" where
  "spaces = [0x09, 0x0A, 0x0B, 0x0C, 0x0D, 0x1C, 0x1D, 0x1E, 0x1F, 0x20, 0x85, 0xA0, 0x1680,
             0x2000, 0x2001, 0x2002, 0x2003, 0x2004, 0x2005, 0x2006, 0x2007, 0x2008, 0x2009,
             0x200A, 0x2028, 0x2029, 0x202F, 0x205F, 0x3000]"

definition is_digit :: "int \<Rightarrow> bool" where
  "is_digit c = (48 \<le> c \<and> c \<le> 57)"

fun read_digits :: "str \<Rightarrow> int \<Rightarrow> int option" where
  "read_digits [] acc = Some acc"
| "read_digits (c # cs) acc =
     (if is_digit c then read_digits cs (acc * 10 + (c - 48)) else None)"

definition plain_int :: "str \<Rightarrow> int option" where
  "plain_int s =
     (case s of
        [] \<Rightarrow> None
      | c # cs \<Rightarrow>
          if c = 45 then (if cs = [] then None else map_option uminus (read_digits cs 0))
          else read_digits (c # cs) 0)"

definition is_alnum :: "int \<Rightarrow> bool" where
  "is_alnum c = ((48 \<le> c \<and> c \<le> 57) \<or> (65 \<le> c \<and> c \<le> 90) \<or> (97 \<le> c \<and> c \<le> 122))"

definition hex_digit :: "int \<Rightarrow> int" where
  "hex_digit d = (if d < 10 then 48 + d else 55 + d)"

definition quote_char :: "string \<Rightarrow> int \<Rightarrow> str" where
  "quote_char safe c =
     (if is_alnum c \<or> c \<in> set (lit ''_.-~'') \<or> c \<in> set (lit safe) then [c]
      else [37, hex_digit (c div 16), hex_digit (c mod 16)])"

definition plain_quote :: "string \<Rightarrow> str \<Rightarrow> str option" where
  "plain_quote safe s =
     (if list_all (\<lambda>c. c < 128) s then Some (concat (map (quote_char safe) s)) else None)"

definition plain_python :: python where
  "plain_python =
     \<lparr>py_isspace = (\<lambda>c. c \<in> set spaces),
      py_int = plain_int,
      py_str = (\<lambda>n. Some (show_int n)),
      py_lower_char = (\<lambda>s i. [s ! i]),
      py_re_space = (\<lambda>c. c \<in> set spaces),
      py_quote = plain_quote\<rparr>"

text \<open>
  The observations \<open>[q, q, "partial", "partial", "final", ...]\<close> with \<open>k\<close> times \<open>"final"\<close>, and
  the polls of a page that shows the values \<open>xs\<close> in turn and \<open>d\<close> from then on.
\<close>

definition observed :: "str \<Rightarrow> nat \<Rightarrow> str list" where
  "observed q k = [q, q, lit ''partial'', lit ''partial''] @ replicate k (lit ''final'')"

definition reads_of :: "str list \<Rightarrow> str \<Rightarrow> nat \<Rightarrow> error + str" where
  "reads_of xs d i = Inr (if i < length xs then xs ! i else d)"

text \<open>A target that changes at every poll, and one that stays blank.\<close>

definition alternating :: "nat \<Rightarrow> error + str" where
  "alternating i = Inr (if even i then lit ''a'' else lit ''b'')"

definition blank :: "nat \<Rightarrow> error + str" where
  "blank i = Inr []"

text \<open>A page on which every call raises.\<close>

definition dead_page :: deepl_page where
  "dead_page = \<lparr>dp_goto = (\<lambda>u. Some (External ''Error'')),
                 dp_wait_for_selector = Inl (External ''TimeoutError''),
                 dp_click = Some (External ''Error''),
                 dp_press = (\<lambda>k. Some (External ''Error'')),
                 dp_type = (\<lambda>k. Some (External ''Error'')),
                 dp_target = (\<lambda>i. Inl (External ''Error''))\<rparr>"

text \<open>A query of whitespace only: a space, a no-break space and an ideographic space.\<close>

definition blank_query :: str where
  "blank_query = [0x20, 0xA0, 0x3000]"

text \<open>Elements and snippets to run the parser on.\<close>

definition no_sibling :: "error + (bool \<times> node)" where
  "no_sibling = Inl (External ''Error'')"

definition text_element :: "string \<Rightarrow> node" where
  "text_element s =
     Node (Inr (Some (lit s))) (\<lambda>a. Inr None) (\<lambda>sel. Inr None) (\<lambda>sel. Inr [])
       (Inr (lit ''SPAN'')) no_sibling"

definition link_element :: "string \<Rightarrow> node" where
  "link_element h =
     Node (Inr None) (\<lambda>a. if a = ''href'' then Inr (Some (lit h)) else Inr None)
       (\<lambda>sel. Inr None) (\<lambda>sel. Inr []) (Inr (lit ''A'')) no_sibling"

definition title_only :: node where
  "title_only =
     Node (Inr None) (\<lambda>a. Inr None)
       (\<lambda>sel. if sel = ''a h2'' then Inr (Some (text_element ''Rust'')) else Inr None)
       (\<lambda>sel. Inr []) (Inr (lit ''DIV'')) no_sibling"


definition full_snippet :: node where
  "full_snippet =
     Node (Inr None) (\<lambda>a. Inr None)
       (\<lambda>sel. if sel = ''a h2'' then Inr (Some (text_element ''Rust'')) else Inr None)
       (\<lambda>sel. Inr [link_element ''https://www.rust-lang.org/'']) (Inr (lit ''DIV'')) no_sibling"

text \<open>
  A page that loads, whose results container never appears; one showing a challenge; and a
  results page with three raw snippets, the second without a link.
\<close>

definition no_results_page :: brave_page where
  "no_results_page =
     \<lparr>bp_add_init_script = None,
      bp_goto = (\<lambda>u. None),
      bp_title = Inr (lit ''rust - Brave Search''),
      bp_wait_for_selector = Some (External ''TimeoutError''),
      bp_query_selector_all = Inr []\<rparr>"

definition captcha_page :: brave_page where
  "captcha_page =
     \<lparr>bp_add_init_script = None,
      bp_goto = (\<lambda>u. None),
      bp_title = Inr (lit ''Brave Captcha check''),
      bp_wait_for_selector = None,
      bp_query_selector_all = Inr [full_snippet]\<rparr>"

definition results_page :: brave_page where
  "results_page =
     \<lparr>bp_add_init_script = None,
      bp_goto = (\<lambda>u. None),
      bp_title = Inr (lit ''rust - Brave Search''),
      bp_wait_for_selector = None,
      bp_query_selector_all = Inr [full_snippet, title_only, full_snippet]\<rparr>"

definition rust_url :: str where
  "rust_url = lit ''https://search.brave.com/search?q=rust&offset=0''"

definition results_found :: scrape_result where
  "results_found =
     \<lparr>items = [ [(''title'', PStr (lit ''Rust'')),
                 (''url'', PStr (lit ''https://www.rust-lang.org/'')),
                 (''snippet'', PStr [])]],
      current_page = 1, has_next = False\<rparr>"

text \<open>An article page with a heading and two categories.\<close>

definition article_document :: node where
  "article_document =
     Node (Inr None) (\<lambda>a. Inr None)
       (\<lambda>sel. if sel = ''#firstHeading'' then Inr (Some (text_element ''Rust'')) else Inr None)
       (\<lambda>sel. if sel = ''#mw-normal-catlinks ul li a''
               then Inr [text_element ''Languages'', text_element '' Systems '']
               else Inr [])
       (Inr (lit ''HTML'')) no_sibling"

definition article_page :: wiki_page where
  "article_page =
     \<lparr>wp_goto = (\<lambda>u. None),
      wp_url = lit ''https://en.wikipedia.org/wiki/Rust'',
      wp_wait_for_selector = None,
      wp_document = article_document\<rparr>"


definition article_found :: scrape_result where
  \<open>article_found =
     \<lparr>items = [ [(''title'', PStr (lit ''Rust'')),
                 (''url'', PStr (lit ''https://en.wikipedia.org/wiki/Rust'')),
                 (''summary'', PStr []), (''sections'', PStr (lit ''[]'')),
                 (''categories'', PStr (lit ''["Languages", "Systems"]''))]],
      current_page = 1, has_next = False\<rparr>\<close>

text \<open>
  A run of the command-line tool that prints one tweet, a record with an id and a text and
  no counters.
\<close>

definition one_tweet_json :: string where
  \<open>one_tweet_json = ''[{"id": "1", "text": "hi"}]''\<close>

definition one_tweet :: "(str \<times> pyval) list" where
  "one_tweet = [(lit ''id'', PStr (lit ''1'')), (lit ''text'', PStr (lit ''hi''))]"

definition one_tweet_env :: x_env where
  "one_tweet_env =
     \<lparr>env_auth_token = lit ''token'',
      env_ct0 = lit ''ct0'',
      bird_auth_file = None,
      run_bird = (\<lambda>cmd. Inr (0, one_tweet_json, [])),
      x_decode = (\<lambda>b. Some (lit b)),
      json_loads = (\<lambda>s. if s = lit one_tweet_json then Inr (PList [PDict one_tweet])
                         else Inl (External ''JSONDecodeError'')),
      x_format = (\<lambda>v. Inl TypeError)\<rparr>"

definition one_tweet_item :: item where
  "one_tweet_item =
     [(''text'', PStr (lit ''hi'')), (''author'', PStr (lit ''jack'')),
      (''author_name'', PStr []), (''timestamp'', PStr []),
      (''url'', PStr (lit ''https://x.com/jack/status/1'')),
      (''replies'', PNone), (''reposts'', PNone), (''likes'', PNone), (''views'', PNone),
      (''is_retweet'', PBool False)]"

definition one_tweet_result :: scrape_result where
  "one_tweet_result = \<lparr>items = [one_tweet_item], current_page = 1, has_next = False\<rparr>"

section \<open>Literals and lowering\<close>

lemma lit_eq_iff: "lit a = lit b \<longleftrightarrow> a = b"
proof -
  have "inj (of_char :: char \<Rightarrow> int)"
    by (rule injI) simp
  then show ?thesis
    unfolding lit_def by (simp add: inj_map_eq_map)
qed

lemma lit_empty_iff: "lit a = [] \<longleftrightarrow> a = []"
  by (simp add: lit_def)


lemma strip_empty_iff: "strip py s = [] \<longleftrightarrow> list_all (py_isspace py) s"
proof
  assume e: "strip py s = []"
  show "list_all (py_isspace py) s"
  proof (rule ccontr)
    assume "\<not> list_all (py_isspace py) s"
    then have ne: "dropWhile (py_isspace py) s \<noteq> []"
      by (simp add: dropWhile_eq_Nil_conv list_all_iff)
    from hd_dropWhile[OF this] have "\<not> py_isspace py (hd (dropWhile (py_isspace py) s))" .
    moreover from e have "\<forall>x\<in>set (dropWhile (py_isspace py) s). py_isspace py x"
      by (simp add: strip_def lstrip_def rstrip_def dropWhile_eq_Nil_conv)
    ultimately show False using ne hd_in_set by blast
  qed
next
  assume "list_all (py_isspace py) s"
  then have d: "dropWhile (py_isspace py) s = []"
    by (simp add: dropWhile_eq_Nil_conv list_all_iff)
  show "strip py s = []"
    unfolding strip_def lstrip_def rstrip_def d by simp
qed

lemma lower_middle:
  assumes "\<forall>c\<in>set w. c < 128"
  shows "\<exists>a b. lower py (ps @ w @ ss) = a @ map ascii_lower w @ b"
proof -
  let ?s = "ps @ w @ ss"
  let ?f = "lower_at py ?s"
  have parts: "[0..<length ?s] =
      [0..<length ps] @ [length ps..<length ps + length w]
      @ [length ps + length w..<length ps + length w + length ss]"
    using upt_add_eq_append[of 0 "length ps" "length w"]
      upt_add_eq_append[of 0 "length ps + length w" "length ss"]
    by (simp add: add.assoc)
  have mid: "map ?f [length ps..<length ps + length w] = map (\<lambda>c. [ascii_lower c]) w"
  proof (rule nth_equalityI)
    show "length (map ?f [length ps..<length ps + length w]) = length (map (\<lambda>c. [ascii_lower c]) w)"
      by simp
  next
    fix i assume "i < length (map ?f [length ps..<length ps + length w])"
    then have i: "i < length w" by simp
    then have "?s ! (length ps + i) = w ! i"
      by (simp add: nth_append)
    moreover have "w ! i < 128" using assms i by simp
    ultimately show "map ?f [length ps..<length ps + length w] ! i
                     = map (\<lambda>c. [ascii_lower c]) w ! i"
      using i by (simp add: lower_at_def)
  qed
  have "lower py ?s =
      concat (map ?f [0..<length ps]) @ concat (map (\<lambda>c. [ascii_lower c]) w)
      @ concat (map ?f [length ps + length w..<length ps + length w + length ss])"
    unfolding lower_def parts by (simp add: mid)
  then show ?thesis by auto
qed

lemma ascii_lower_small: "ascii_lower c < 128 \<Longrightarrow> c < 128"
  by (auto simp: ascii_lower_def split: if_splits)

lemma sublist_lower:
  assumes "sublist w s" and "map ascii_lower w = t" and "\<forall>c\<in>set t. c < 128"
  shows "sublist t (lower py s)"
proof -
  have "\<forall>c\<in>set w. c < 128"
  proof
    fix c assume "c \<in> set w"
    then have "ascii_lower c \<in> set t" using assms(2) by auto
    with assms(3) have "ascii_lower c < 128" by simp
    then show "c < 128" by (rule ascii_lower_small)
  qed
  moreover from assms(1) obtain ps ss where "s = ps @ w @ ss"
    unfolding sublist_def by blast
  ultimately obtain a b where "lower py s = a @ map ascii_lower w @ b"
    using lower_middle[of w py ps ss] by blast
  then have "lower py s = a @ t @ b"
    using assms(2) by simp
  then show ?thesis
    unfolding sublist_def by blast
qed

section \<open>The stabilisation loop\<close>

lemma strip_hello: "strip plain_python (lit ''hello'') = lit ''hello''"
  by code_simp

lemma poll_loop_keeps:
  "tr \<noteq> [] \<Longrightarrow> poll_loop qs rd n i tr sc = (Inr t, k) \<Longrightarrow> t \<noteq> []"
  by (induction n arbitrary: i tr sc) (auto split: sum.splits if_splits)

lemma poll_loop_trivial:
  "(\<forall>j. i \<le> j \<and> j < i + n \<longrightarrow> rd j = Inr [] \<or> rd j = Inr qs) \<Longrightarrow>
   poll_loop qs rd n i tr sc = (Inr tr, i + n)"
proof (induction n arbitrary: i sc)
  case 0
  then show ?case by simp
next
  case (Suc n)
  have "rd i = Inr [] \<or> rd i = Inr qs" using Suc.prems by simp
  moreover have "poll_loop qs rd n (Suc i) tr 0 = (Inr tr, Suc i + n)"
    using Suc.prems by (intro Suc.IH) auto
  ultimately show ?case by auto
qed

lemma poll_loop_empty_only_trivial:
  "poll_loop qs rd n i [] sc = (Inr [], k) \<Longrightarrow>
   (\<forall>j. i \<le> j \<and> j < i + n \<longrightarrow> rd j = Inr [] \<or> rd j = Inr qs)"
proof (induction n arbitrary: i sc)
  case 0
  then show ?case by auto
next
  case (Suc n)
  from Suc.prems obtain cur where cur: "rd i = Inr cur"
    by (cases "rd i") auto
  show ?case
  proof (cases "cur = [] \<or> cur = qs")
    case True
    with Suc.prems cur have "poll_loop qs rd n (Suc i) [] 0 = (Inr [], k)" by auto
    from Suc.IH[OF this]
    have "\<forall>j. Suc i \<le> j \<and> j < Suc i + n \<longrightarrow> rd j = Inr [] \<or> rd j = Inr qs" .
    with True cur show ?thesis
      by (metis Suc_leI add_Suc_right add_Suc le_neq_implies_less)
  next
    case False
    with Suc.prems cur have "poll_loop qs rd n (Suc i) cur 0 = (Inr [], k)" by auto
    with False poll_loop_keeps[of cur qs rd n "Suc i" 0 "[]" k] show ?thesis by auto
  qed
qed

lemma poll_loop_error:
  "poll_loop qs rd n i tr sc = (Inl e, k) \<Longrightarrow> \<exists>j. i \<le> j \<and> j < i + n \<and> rd j = Inl e"
proof (induction n arbitrary: i tr sc)
  case 0
  then show ?case by simp
next
  case (Suc n)
  show ?case
  proof (cases "rd i")
    case (Inl e')
    with Suc.prems show ?thesis by auto
  next
    case (Inr cur)
    with Suc.prems obtain tr' sc' where "poll_loop qs rd n (Suc i) tr' sc' = (Inl e, k)"
      by (auto split: if_splits simp: required_stable_def)
    from Suc.IH[OF this] obtain j where "Suc i \<le> j" "j < Suc i + n" "rd j = Inl e" by blast
    then show ?thesis by (intro exI[of _ j]) auto
  qed
qed

text \<open>
  The loop ends in the timeout error exactly when every one of the 80 polls returned the
  empty text or the stripped input, provided no poll itself raises that error.
\<close>

lemma timeout_iff_nothing_appeared:
  assumes "\<forall>i<max_polls. rd i \<noteq> Inl timeout_error"
  shows "deepl_finish query src tgt (fst (stabilize py query rd)) = Inl timeout_error
         \<longleftrightarrow> (\<forall>i<max_polls. rd i = Inr [] \<or> rd i = Inr (strip py query))"
proof
  assume L: "deepl_finish query src tgt (fst (stabilize py query rd)) = Inl timeout_error"
  obtain r k where rk: "stabilize py query rd = (r, k)" by (cases "stabilize py query rd")
  show "\<forall>i<max_polls. rd i = Inr [] \<or> rd i = Inr (strip py query)"
  proof (cases r)
    case (Inl e)
    with L rk have "e = timeout_error" by (simp add: deepl_finish_def)
    with rk Inl poll_loop_error[of "strip py query" rd max_polls 0 "[]" 0 e k] assms
    show ?thesis by (auto simp: stabilize_def)
  next
    case (Inr t)
    with L rk have "t = []"
      by (auto simp: deepl_finish_def split: if_splits)
    with rk Inr poll_loop_empty_only_trivial[of "strip py query" rd max_polls 0 0 k]
    show ?thesis by (auto simp: stabilize_def)
  qed
next
  assume "\<forall>i<max_polls. rd i = Inr [] \<or> rd i = Inr (strip py query)"
  then have "poll_loop (strip py query) rd max_polls 0 [] 0 = (Inr [], 0 + max_polls)"
    by (intro poll_loop_trivial) auto
  then show "deepl_finish query src tgt (fst (stabilize py query rd)) = Inl timeout_error"
    by (simp add: stabilize_def deepl_finish_def)
qed

text \<open>
  C1 (as stated, refuted). After the ten observations \<open>[q, q, "partial", "partial"]\<close> and six
  times \<open>"final"\<close> the loop has not stopped: the first \<open>"final"\<close> is recorded with the counter
  at zero, so the counter stands at five. What it returns, and when, depends on the polls that
  follow: if the page then shows another text, that text is returned, at poll 17; if it keeps
  showing \<open>"final"\<close>, the loop stops at poll 11, on the seventh observation; if it goes blank,
  all 80 polls are made.
\<close>

theorem stabilize_six_observations_not_enough:
  "stabilize plain_python (lit ''hello'') (reads_of (observed (lit ''hello'') 6) (lit ''changed''))
     = (Inr (lit ''changed''), 17) \<and>
   stabilize plain_python (lit ''hello'') (reads_of (observed (lit ''hello'') 6) (lit ''final''))
     = (Inr (lit ''final''), 11) \<and>
   stabilize plain_python (lit ''hello'') (reads_of (observed (lit ''hello'') 6) [])
     = (Inr (lit ''final''), 80)"
  by code_simp

text \<open>
  C1 (amended). When the polls return the original input twice, \<open>"partial"\<close> twice and then
  \<open>"final"\<close> seven times (once to be recorded and six consecutive times unchanged), the loop
  stops at the eleventh poll and returns \<open>"final"\<close>, whatever the page shows afterwards; the
  leading echoes of the input are ignored.
\<close>

theorem stabilize_returns_final:
  assumes q1: "strip py q \<noteq> lit ''partial''" and q2: "strip py q \<noteq> lit ''final''"
    and rd: "\<forall>i<11. rd i = Inr (observed (strip py q) 7 ! i)"
  shows "stabilize py q rd = (Inr (lit ''final''), 11)"
proof -
  have r: "rd 0 = Inr (strip py q)" "rd 1 = Inr (strip py q)" "rd 2 = Inr (lit ''partial'')"
    "rd 3 = Inr (lit ''partial'')" "rd 4 = Inr (lit ''final'')" "rd 5 = Inr (lit ''final'')"
    "rd 6 = Inr (lit ''final'')" "rd 7 = Inr (lit ''final'')" "rd 8 = Inr (lit ''final'')"
    "rd 9 = Inr (lit ''final'')" "rd 10 = Inr (lit ''final'')"
    using rd by (simp_all add: observed_def eval_nat_numeral)
  have m: "max_polls = Suc (Suc (Suc (Suc (Suc (Suc (Suc (Suc (Suc (Suc (Suc 69))))))))))"
    by (simp add: max_polls_def)
  have ne: "lit ''partial'' \<noteq> lit ''final''" "lit ''partial'' \<noteq> []" "lit ''final'' \<noteq> []"
    "lit ''final'' \<noteq> lit ''partial''"
    by (simp_all add: lit_eq_iff lit_empty_iff)
  show ?thesis
    using q1 q2 r ne unfolding stabilize_def m
    by (simp add: required_stable_def eval_nat_numeral)
qed

theorem stabilize_returns_final_witness:
  "stabilize plain_python (lit ''hello'') (reads_of (observed (lit ''hello'') 7) (lit ''changed''))
     = (Inr (lit ''final''), 11)"
  using stabilize_returns_final
    [of plain_python "lit ''hello''" "reads_of (observed (lit ''hello'') 7) (lit ''changed'')"]
  by (simp add: strip_hello reads_of_def observed_def lit_eq_iff)

text \<open>
  C2. The claim asks for the timeout error whenever no value stays unchanged for the required
  count; the loop does not give it. A target that alternates between two texts never stays
  unchanged, yet after the 80 polls the recipe returns the text recorded last.
\<close>

theorem unstable_value_is_returned:
  "\<not> stabilises (strip plain_python (lit ''q'')) alternating \<and>
   fst (stabilize plain_python (lit ''q'') alternating) = Inr (lit ''b'') \<and>
   deepl_finish (lit ''q'') ''en'' ''de'' (fst (stabilize plain_python (lit ''q'') alternating))
     = Inr (ScrapeResult [deepl_item (lit ''q'') (lit ''b'') ''en'' ''de''])"
  by code_simp

section \<open>The translation recipe on an empty query\<close>

text \<open>
  C7. On endpoint \<open>"en-de"\<close> with a query that is missing, empty or made only of whitespace
  (the characters that \<open>strip()\<close> removes), the recipe returns exactly one item whose
  \<open>source_text\<close> and \<open>translated_text\<close> are empty, and makes no call on the page.
\<close>

theorem deepl_empty_query:
  assumes "list_all (py_isspace py) (or_empty (params ''query''))"
  shows "deepl_scrape py ''en-de'' page params
           = (Inr (ScrapeResult [deepl_item [] [] ''en'' ''de'']), [])
         \<and> map_of (deepl_item [] [] ''en'' ''de'') ''source_text'' = Some (PStr [])
         \<and> map_of (deepl_item [] [] ''en'' ''de'') ''translated_text'' = Some (PStr [])"
proof -
  from assms have "strip py (or_empty (params ''query'')) = []"
    by (simp add: strip_empty_iff)
  then show ?thesis
    by (simp add: deepl_scrape_def LANG_PAIRS_def deepl_item_def)
qed

lemma blank_query_is_blank: "list_all (py_isspace plain_python) blank_query"
  by code_simp

theorem deepl_empty_query_witness:
  "deepl_scrape plain_python ''en-de'' dead_page [''query'' \<mapsto> blank_query]
     = (Inr (ScrapeResult [deepl_item [] [] ''en'' ''de'']), [])"
  using deepl_empty_query [of plain_python "[''query'' \<mapsto> blank_query]" dead_page]
  by (simp add: or_empty_def blank_query_is_blank)

section \<open>The search-engine recipe: snippets\<close>









section \<open>The search-engine recipe: challenge page and missing results\<close>

lemma search_params_valid:
  "strip py (or_empty (params ''query'')) \<noteq> [] \<Longrightarrow>
   py_int py (get_default params ''count'' (lit ''20'')) = Some c \<Longrightarrow>
   py_int py (get_default params ''page'' (lit ''1'')) = Some p \<Longrightarrow>
   search_params py params = Inr (strip py (or_empty (params ''query'')), min c 50, max p 1)"
  by (simp add: search_params_def Let_def and_then_def to_int_def)

text \<open>
  C8. When the request is valid (a query that is not empty once stripped, \<open>count\<close> and \<open>page\<close>
  that \<open>int()\<close> accepts, an address that can be built), the page loads without a challenge
  and the wait for the results container raises (a timeout), the recipe returns a result, not
  an error, with no items, \<open>has_next\<close> false and \<open>current_page\<close> the requested page number
  clamped to at least 1.
\<close>

theorem brave_missing_results:
  assumes "strip py (or_empty (params ''query'')) \<noteq> []"
    and "py_int py (get_default params ''count'' (lit ''20'')) = Some c"
    and "py_int py (get_default params ''page'' (lit ''1'')) = Some p"
    and "brave_url py (strip py (or_empty (params ''query''))) (max p 1) = Inr url"
    and "bp_add_init_script page = None"
    and "bp_goto page url = None"
    and "bp_title page = Inr title"
    and "\<not> sublist (lit ''captcha'') (lower py title)"
    and "bp_wait_for_selector page = Some e"
  shows "fst (brave_scrape py endpoint page params)
           = Inr \<lparr>items = [], current_page = max p 1, has_next = False\<rparr>"
  using assms search_params_valid[OF assms(1-3)]
  by (simp add: brave_scrape_def brave_navigate_def brave_extract_def)

theorem brave_missing_results_witness:
  "fst (brave_scrape plain_python ''search'' no_results_page
          [''query'' \<mapsto> lit ''rust'', ''page'' \<mapsto> lit ''3''])
     = Inr \<lparr>items = [], current_page = 3, has_next = False\<rparr>"
proof -
  let ?P = "[''query'' \<mapsto> lit ''rust'', ''page'' \<mapsto> lit ''3'']"
  let ?url = "lit ''https://search.brave.com/search?q=rust&offset=40''"
  have 1: "strip plain_python (or_empty (?P ''query'')) \<noteq> []" by code_simp
  have 2: "py_int plain_python (get_default ?P ''count'' (lit ''20'')) = Some 20" by code_simp
  have 3: "py_int plain_python (get_default ?P ''page'' (lit ''1'')) = Some 3" by code_simp
  have 4: "brave_url plain_python (strip plain_python (or_empty (?P ''query''))) (max 3 1)
             = Inr ?url" by code_simp
  have 5: "bp_add_init_script no_results_page = None"
    and 6: "bp_goto no_results_page ?url = None"
    and 7: "bp_title no_results_page = Inr (lit ''rust - Brave Search'')"
    and 9: "bp_wait_for_selector no_results_page = Some (External ''TimeoutError'')"
    by (simp_all add: no_results_page_def)
  have 8: "\<not> sublist (lit ''captcha'') (lower plain_python (lit ''rust - Brave Search''))"
    by code_simp
  have m: "max (3::int) 1 = 3" by simp
  from brave_missing_results[OF 1 2 3 4 5 6 7 8 9, of "''search''"] show ?thesis
    by (simp only: m)
qed

text \<open>
  C9. When the request is valid and the title read after navigation contains \<open>CAPTCHA\<close> in any
  letter case (some part \<open>w\<close> of the title is \<open>captcha\<close> once its capitals are lowered), the
  recipe fails with the challenge error, which differs from the error of a missing query, and
  the calls made on the page end with reading the title: nothing is waited for, queried or
  extracted afterwards.
\<close>

theorem brave_captcha_blocks:
  assumes "search_params py params = Inr (query, count, page_num)"
    and "brave_url py query page_num = Inr url"
    and "bp_add_init_script page = None"
    and "bp_goto page url = None"
    and "bp_title page = Inr title"
    and "sublist w title" and "map ascii_lower w = lit ''captcha''"
  shows "brave_scrape py endpoint page params
           = (Inl captcha_error, [AddInitScript, Goto url, Sleep, Title])
         \<and> captcha_error \<noteq> missing_query"
proof -
  have "\<forall>c\<in>set (lit ''captcha''). c < 128"
    by (simp add: lit_def)
  from sublist_lower[OF assms(6) assms(7) this]
  have "sublist (lit ''captcha'') (lower py title)" .
  moreover have "captcha_error \<noteq> missing_query"
    by (simp add: captcha_error_def missing_query_def lit_def)
  ultimately show ?thesis
    using assms(1-5)
    by (simp add: brave_scrape_def brave_navigate_def)
qed

theorem brave_captcha_blocks_witness:
  "brave_scrape plain_python ''search'' captcha_page [''query'' \<mapsto> lit ''rust'']
     = (Inl captcha_error, [AddInitScript, Goto rust_url, Sleep, Title])"
proof -
  let ?P = "[''query'' \<mapsto> lit ''rust'']"
  have 1: "search_params plain_python ?P = Inr (lit ''rust'', 20, 1)" by code_simp
  have 2: "brave_url plain_python (lit ''rust'') 1 = Inr rust_url" by code_simp
  have 3: "bp_add_init_script captcha_page = None"
    and 4: "bp_goto captcha_page rust_url = None"
    and 5: "bp_title captcha_page = Inr (lit ''Brave Captcha check'')"
    by (simp_all add: captcha_page_def)
  have 6: "sublist (lit ''Captcha'') (lit ''Brave Captcha check'')" by code_simp
  have 7: "map ascii_lower (lit ''Captcha'') = lit ''captcha''" by code_simp
  from brave_captcha_blocks[OF 1 2 3 4 5 6 7, of "''search''"] show ?thesis
    by (rule conjunct1)
qed

section \<open>Lemmas on the recipes\<close>

lemma to_int_cases:
  "to_int py s = Inl e \<longleftrightarrow> py_int py s = None \<and> e = ValueError"
  "to_int py s = Inr n \<longleftrightarrow> py_int py s = Some n"
  by (auto simp: to_int_def split: option.splits)





lemma length_map_filter_le: "length (List.map_filter f xs) \<le> length xs"
  by (induction xs) (auto split: option.splits)

lemma length_py_take: "0 \<le> n \<Longrightarrow> int (length (py_take n xs)) \<le> n"
  by (simp add: py_take_def)

lemma tweet_items_length:
  "tweet_items env u tweets its = Inr res \<Longrightarrow> length res = length its + length tweets"
  by (induction tweets arbitrary: its) (auto simp: and_then_def split: sum.splits)

lemma search_params_ok:
  "search_params py params = Inr (q, cnt, pn) \<Longrightarrow>
   1 \<le> pn \<and> (\<exists>c. py_int py (get_default params ''count'' (lit ''20'')) = Some c \<and> cnt = min c 50)"
  by (auto simp: search_params_def Let_def and_then_def to_int_def
      split: if_splits sum.splits option.splits)

lemma brave_count_page:
  assumes "fst (brave_scrape py endpoint page params) = Inr r"
  shows "1 \<le> current_page r \<and>
         (\<forall>c. py_int py (get_default params ''count'' (lit ''20'')) = Some c \<and> 0 \<le> c
              \<longrightarrow> int (length (items r)) \<le> min c 50)"
proof -
  from assms obtain q cnt pn where sp: "search_params py params = Inr (q, cnt, pn)"
    by (cases "search_params py params") (auto simp: brave_scrape_def)
  from search_params_ok[OF sp] obtain c where pn: "1 \<le> pn"
    and c: "py_int py (get_default params ''count'' (lit ''20'')) = Some c" "cnt = min c 50"
    by blast
  from assms sp have "fst (brave_extract py page cnt pn) = Inr r"
    by (auto simp: brave_scrape_def split: prod.splits sum.splits if_splits)
  then have r: "current_page r = pn \<and>
      (items r = [] \<or> (\<exists>sn. items r = parse_snippets py (py_take cnt sn)))"
    by (auto simp: brave_extract_def split: option.splits sum.splits)
  have "0 \<le> cnt \<Longrightarrow> int (length (items r)) \<le> cnt"
  proof -
    assume nn: "0 \<le> cnt"
    from r consider "items r = []" | sn where "items r = parse_snippets py (py_take cnt sn)"
      by blast
    then show ?thesis
    proof cases
      case 1 then show ?thesis using nn by simp
    next
      case 2
      have "length (items r) \<le> length (py_take cnt sn)"
        unfolding 2 parse_snippets_def by (rule length_map_filter_le)
      with length_py_take[OF nn, of sn] show ?thesis by linarith
    qed
  qed
  with r pn c show ?thesis by auto
qed

lemma deepl_one_item:
  assumes "fst (deepl_scrape py endpoint page params) = Inr r"
  shows "current_page r = 1 \<and> length (items r) = 1"
  using assms
  by (auto simp: deepl_scrape_def deepl_finish_def ScrapeResult_def Let_def
      split: option.splits prod.splits sum.splits if_splits)

lemma extract_article_one:
  "extract_article py page = Inr r \<Longrightarrow> current_page r = 1 \<and> length (items r) = 1"
  by (auto simp: extract_article_def and_then_def split: sum.splits)

lemma redirect_one:
  "article_from_redirect py page q = Inr r \<Longrightarrow> current_page r = 1 \<and> length (items r) = 1"
  by (auto simp: article_from_redirect_def and_then_def split: sum.splits list.splits
      dest!: extract_article_one)

lemma wiki_article_one:
  "wiki_article py page params = Inr r \<Longrightarrow> current_page r = 1 \<and> length (items r) = 1"
  by (auto simp: wiki_article_def Let_def and_then_def raise_if_def
      split: sum.splits option.splits if_splits dest!: extract_article_one)

lemma wiki_search_cases:
  assumes "wiki_search py page params = Inr r"
  shows "\<exists>q cnt pn. search_params py params = Inr (q, cnt, pn) \<and>
           (if redirected page then article_from_redirect py page q = Inr r
            else current_page r = pn \<and>
                 (items r = [] \<or>
                  (\<exists>rs. items r = List.map_filter (search_result_entry py) (py_take cnt rs))))"
proof -
  from assms obtain q cnt pn where sp: "search_params py params = Inr (q, cnt, pn)"
    by (cases "search_params py params") (auto simp: wiki_search_def and_then_def)
  from assms sp obtain url where url: "wiki_search_url py q pn = Inr url"
    by (cases "wiki_search_url py q pn") (auto simp: wiki_search_def and_then_def)
  from assms sp url have g: "wp_goto page url = None"
    by (cases "wp_goto page url") (auto simp: wiki_search_def and_then_def raise_if_def)
  show ?thesis
  proof (cases "redirected page")
    case True
    with assms sp url g have "article_from_redirect py page q = Inr r"
      by (simp add: wiki_search_def and_then_def raise_if_def)
    with sp True show ?thesis by simp
  next
    case False
    with assms sp url g have "current_page r = pn \<and>
        (items r = [] \<or>
         (\<exists>rs. items r = List.map_filter (search_result_entry py) (py_take cnt rs)))"
      by (auto simp: wiki_search_def and_then_def raise_if_def extract_search_results_def
          split: sum.splits option.splits if_splits)
    with sp False show ?thesis by simp
  qed
qed

lemma wiki_search_count_page:
  assumes "wiki_search py page params = Inr r"
  shows "1 \<le> current_page r \<and>
         (redirected page \<longrightarrow> length (items r) = 1) \<and>
         (\<not> redirected page \<longrightarrow>
            (\<forall>c. py_int py (get_default params ''count'' (lit ''20'')) = Some c \<and> 0 \<le> c
                 \<longrightarrow> int (length (items r)) \<le> min c 50))"
proof -
  from wiki_search_cases[OF assms] obtain q cnt pn
    where sp: "search_params py params = Inr (q, cnt, pn)"
      and cs: "if redirected page then article_from_redirect py page q = Inr r
               else current_page r = pn \<and>
                 (items r = [] \<or>
                  (\<exists>rs. items r = List.map_filter (search_result_entry py) (py_take cnt rs)))"
    by blast
  from search_params_ok[OF sp] obtain c where pn: "1 \<le> pn"
    and c: "py_int py (get_default params ''count'' (lit ''20'')) = Some c" "cnt = min c 50"
    by blast
  show ?thesis
  proof (cases "redirected page")
    case True
    with cs have "article_from_redirect py page q = Inr r" by simp
    from redirect_one[OF this] True show ?thesis by simp
  next
    case False
    with cs have r: "current_page r = pn \<and>
        (items r = [] \<or>
         (\<exists>rs. items r = List.map_filter (search_result_entry py) (py_take cnt rs)))"
      by simp
    have "0 \<le> cnt \<Longrightarrow> int (length (items r)) \<le> cnt"
    proof -
      assume nn: "0 \<le> cnt"
      from r consider "items r = []"
        | rs where "items r = List.map_filter (search_result_entry py) (py_take cnt rs)"
        by blast
      then show ?thesis
      proof cases
        case 1 then show ?thesis using nn by simp
      next
        case 2
        have "length (items r) \<le> length (py_take cnt rs)"
          unfolding 2 by (rule length_map_filter_le)
        with length_py_take[OF nn, of rs] show ?thesis by linarith
      qed
    qed
    with r pn c False show ?thesis by auto
  qed
qed

lemma x_parse_output_shape:
  assumes "x_parse_output py env u n out = Inr r"
  shows "current_page r = 1 \<and>
         (\<exists>tweets. tweet_items env u (py_take n tweets) [] = Inr (items r))"
  using assms
  by (auto simp: x_parse_output_def and_then_def Let_def
      split: prod.splits if_splits sum.splits pyval.splits)

lemma x_scrape_shape:
  assumes "x_scrape py endpoint env params = Inr r"
  shows "\<exists>c u out. py_int py (get_default params ''count'' (lit ''10'')) = Some c \<and>
           x_parse_output py env u (min c 50) out = Inr r"
proof -
  from assms obtain c where c: "py_int py (get_default params ''count'' (lit ''10'')) = Some c"
    by (cases "py_int py (get_default params ''count'' (lit ''10''))")
       (auto simp: x_scrape_def Let_def and_then_def to_int_def split: if_splits)
  from assms c show ?thesis
    by (auto simp: x_scrape_def Let_def and_then_def to_int_def
        split: if_splits sum.splits prod.splits)
qed

lemma x_count_page:
  assumes "x_scrape py endpoint env params = Inr r"
  shows "current_page r = 1 \<and>
         (\<forall>c. py_int py (get_default params ''count'' (lit ''10'')) = Some c \<and> 0 \<le> c
              \<longrightarrow> int (length (items r)) \<le> min c 50)"
proof -
  from x_scrape_shape[OF assms] obtain c u out
    where c: "py_int py (get_default params ''count'' (lit ''10'')) = Some c"
      and out: "x_parse_output py env u (min c 50) out = Inr r" by blast
  from x_parse_output_shape[OF out] obtain tweets
    where its: "tweet_items env u (py_take (min c 50) tweets) [] = Inr (items r)"
      and cp: "current_page r = 1" by blast
  from tweet_items_length[OF its]
  have "length (items r) = length (py_take (min c 50) tweets)" by simp
  with length_py_take[of "min c 50" tweets]
  have "0 \<le> c \<Longrightarrow> int (length (items r)) \<le> min c 50"
    by simp
  with cp c show ?thesis by auto
qed






















lemma results_page_run:
  "fst (brave_scrape plain_python ''search'' results_page
          [''query'' \<mapsto> lit ''rust'', ''count'' \<mapsto> lit ''2''])
     = Inr results_found"
  by code_simp



lemma article_scrape_run:
  "wikipedia_scrape plain_python ''article'' article_page [''query'' \<mapsto> lit ''Rust'']
     = Inr article_found"
  by code_simp

lemma empty_translation_run:
  "fst (deepl_scrape plain_python ''en-de'' dead_page [''query'' \<mapsto> []])
     = Inr (ScrapeResult [deepl_item [] [] ''en'' ''de''])"
  by code_simp

lemma one_tweet_run:
  "x_scrape plain_python ''posts'' one_tweet_env [''query'' \<mapsto> lit ''@jack'']
     = Inr one_tweet_result"
  by code_simp




section \<open>Supported endpoints\<close>

text \<open>
  C6 (as stated, refuted). The endpoint \<open>"search"\<close> is supported by two recipes, the
  search-engine recipe and the encyclopedia recipe.
\<close>

theorem search_supported_by_two_recipes:
  "brave_supports ''search'' \<and> wikipedia_supports ''search'' \<and>
   supporters ''search'' = [Brave, Wikipedia]"
  by (simp add: supporters_def brave_supports_def wikipedia_supports_def deepl_supports_def
      x_supports_def LANG_PAIRS_def)

text \<open>
  C6 (amended). Each \<open>supports\<close> is a membership test in a fixed set of names, a function of
  the endpoint alone: \<open>{search}\<close>, \<open>{de-en, en-de}\<close>, \<open>{search, article}\<close> and \<open>{posts}\<close>.
  Every endpoint other than \<open>"search"\<close> is supported by at most one of the four recipes.
\<close>

theorem supports_disjoint_except_search:
  "(e \<noteq> ''search'' \<longrightarrow> length (supporters e) \<le> 1) \<and>
   (brave_supports e \<longleftrightarrow> e = ''search'') \<and>
   (deepl_supports e \<longleftrightarrow> e = ''de-en'' \<or> e = ''en-de'') \<and>
   (wikipedia_supports e \<longleftrightarrow> e = ''search'' \<or> e = ''article'') \<and>
   (x_supports e \<longleftrightarrow> e = ''posts'')"
  by (auto simp: supporters_def brave_supports_def wikipedia_supports_def deepl_supports_def
      x_supports_def LANG_PAIRS_def)

theorem supports_disjoint_except_search_witness:
  "supporters ''posts'' = [X] \<and> length (supporters ''posts'') \<le> 1"
  using supports_disjoint_except_search [of "''posts''"]
  by (simp add: supporters_def brave_supports_def wikipedia_supports_def deepl_supports_def
      x_supports_def LANG_PAIRS_def)

section \<open>Parameters that are not numbers\<close>




section \<open>Number of items and page number\<close>

text \<open>
  C5 (as stated, refuted). The translation recipe returns one item although the requested
  count is 0.
\<close>

theorem translation_ignores_count:
  "py_int plain_python (lit ''0'') = Some 0 \<and>
   fst (deepl_scrape plain_python ''en-de'' dead_page
          [''query'' \<mapsto> [], ''count'' \<mapsto> lit ''0'', ''page'' \<mapsto> lit ''1''])
     = Inr (ScrapeResult [deepl_item [] [] ''en'' ''de'']) \<and>
   length (items (ScrapeResult [deepl_item [] [] ''en'' ''de''])) = 1"
  by code_simp

text \<open>
  C5 (amended). Every successful scrape returns \<open>current_page \<ge> 1\<close>. For a requested count
  that \<open>int()\<close> reads as \<open>c \<ge> 0\<close> the search-engine recipe, the encyclopedia search that lists
  results and the social-timeline recipe return at most \<open>min(c, 50)\<close> items. The translation
  recipe, the encyclopedia article endpoint and an encyclopedia search answered with an article
  return exactly one item, whatever the count.
\<close>

theorem items_count_and_page:
  "(fst (brave_scrape py eb bpage params) = Inr rb \<longrightarrow>
      1 \<le> current_page rb \<and>
      (\<forall>c. py_int py (get_default params ''count'' (lit ''20'')) = Some c \<and> 0 \<le> c
           \<longrightarrow> int (length (items rb)) \<le> min c 50)) \<and>
   (fst (deepl_scrape py ed dpage params) = Inr rd \<longrightarrow>
      current_page rd = 1 \<and> length (items rd) = 1) \<and>
   (wikipedia_scrape py ew wpage params = Inr rw \<longrightarrow>
      1 \<le> current_page rw \<and>
      (ew \<noteq> ''search'' \<or> redirected wpage \<longrightarrow> length (items rw) = 1) \<and>
      (ew = ''search'' \<and> \<not> redirected wpage \<longrightarrow>
         (\<forall>c. py_int py (get_default params ''count'' (lit ''20'')) = Some c \<and> 0 \<le> c
              \<longrightarrow> int (length (items rw)) \<le> min c 50))) \<and>
   (x_scrape py ex env params = Inr rx \<longrightarrow>
      current_page rx = 1 \<and>
      (\<forall>c. py_int py (get_default params ''count'' (lit ''10'')) = Some c \<and> 0 \<le> c
           \<longrightarrow> int (length (items rx)) \<le> min c 50))"
proof (intro conjI impI)
  assume "fst (brave_scrape py eb bpage params) = Inr rb"
  from brave_count_page[OF this]
  show "1 \<le> current_page rb"
    and "\<forall>c. py_int py (get_default params ''count'' (lit ''20'')) = Some c \<and> 0 \<le> c
           \<longrightarrow> int (length (items rb)) \<le> min c 50" by blast+
next
  assume "fst (deepl_scrape py ed dpage params) = Inr rd"
  from deepl_one_item[OF this]
  show "current_page rd = 1" and "length (items rd) = 1" by blast+
next
  assume w: "wikipedia_scrape py ew wpage params = Inr rw"
  show "1 \<le> current_page rw"
    using w wiki_search_count_page[of py wpage params rw] wiki_article_one[of py wpage params rw]
    by (auto simp: wikipedia_scrape_def split: if_splits)
  show "length (items rw) = 1" if "ew \<noteq> ''search'' \<or> redirected wpage"
    using that w wiki_search_count_page[of py wpage params rw]
      wiki_article_one[of py wpage params rw]
    by (auto simp: wikipedia_scrape_def split: if_splits)
  show "\<forall>c. py_int py (get_default params ''count'' (lit ''20'')) = Some c \<and> 0 \<le> c
           \<longrightarrow> int (length (items rw)) \<le> min c 50"
    if "ew = ''search'' \<and> \<not> redirected wpage"
  proof -
    from that w have "wiki_search py wpage params = Inr rw"
      by (simp add: wikipedia_scrape_def)
    from wiki_search_count_page[OF this] that show ?thesis by blast
  qed
next
  assume "x_scrape py ex env params = Inr rx"
  from x_count_page[OF this]
  show "current_page rx = 1"
    and "\<forall>c. py_int py (get_default params ''count'' (lit ''10'')) = Some c \<and> 0 \<le> c
           \<longrightarrow> int (length (items rx)) \<le> min c 50" by blast+
qed

theorem items_count_and_page_witness:
  "fst (brave_scrape plain_python ''search'' results_page
          [''query'' \<mapsto> lit ''rust'', ''count'' \<mapsto> lit ''2''])
     = Inr results_found \<and>
   1 \<le> current_page results_found \<and> int (length (items results_found)) \<le> min 2 50 \<and>
   length (items (ScrapeResult [deepl_item [] [] ''en'' ''de''])) = 1 \<and>
   length (items article_found) = 1 \<and>
   int (length (items one_tweet_result)) \<le> min 10 50"
proof -
  let ?P = "[''query'' \<mapsto> lit ''rust'', ''count'' \<mapsto> lit ''2'']"
  let ?J = "[''query'' \<mapsto> lit ''@jack'']"
  have c: "py_int plain_python (get_default ?P ''count'' (lit ''20'')) = Some 2 \<and> (0::int) \<le> 2"
    by code_simp
  have d: "py_int plain_python (get_default ?J ''count'' (lit ''10'')) = Some 10 \<and> (0::int) \<le> 10"
    by code_simp
  have a: "''article'' \<noteq> ''search''" by simp
  from items_count_and_page
    [where py = plain_python and eb = "''search''" and bpage = results_page
       and rb = results_found and params = ?P]
    results_page_run c
  have 1: "1 \<le> current_page results_found \<and> int (length (items results_found)) \<le> min 2 50"
    by blast
  from items_count_and_page
    [where py = plain_python and ed = "''en-de''" and dpage = dead_page
       and rd = "ScrapeResult [deepl_item [] [] ''en'' ''de'']" and params = "[''query'' \<mapsto> []]"]
    empty_translation_run
  have 2: "length (items (ScrapeResult [deepl_item [] [] ''en'' ''de''])) = 1"
    by blast
  from items_count_and_page
    [where py = plain_python and ew = "''article''" and wpage = article_page
       and rw = article_found and params = "[''query'' \<mapsto> lit ''Rust'']"]
    article_scrape_run a
  have 3: "length (items article_found) = 1"
    by blast
  from items_count_and_page
    [where py = plain_python and ex = "''posts''" and env = one_tweet_env
       and rx = one_tweet_result and params = ?J]
    one_tweet_run d
  have 4: "int (length (items one_tweet_result)) \<le> min 10 50"
    by blast
  from results_page_run 1 2 3 4 show ?thesis by blast
qed

section \<open>Field values\<close>




end
